theory Spec2Isabelle
  imports Main
begin

section \<open>JavaScript values used by the handlers\<close>

text \<open>
  An optional string of the source (\<open>string | null | undefined\<close>) is a \<open>string option\<close>.
  JavaScript treats \<open>null\<close>, \<open>undefined\<close> and the empty string as falsy; the handlers
  rely on that in every \<open>a || b\<close> chain and every \<open>!x\<close> test.
\<close>

definition truthy :: "string option \<Rightarrow> bool" where
  "truthy s = (case s of None \<Rightarrow> False | Some t \<Rightarrow> t \<noteq> [])"

text \<open>\<open>a || b\<close> on optional strings.\<close>

definition js_or :: "string option \<Rightarrow> string option \<Rightarrow> string option" where
  "js_or a b = (if truthy a then a else b)"

text \<open>\<open>a || null\<close>.\<close>

definition or_null :: "string option \<Rightarrow> string option" where
  "or_null a = js_or a None"

text \<open>\<open>s.endsWith(suffix)\<close>.\<close>

definition endsWith :: "string \<Rightarrow> string \<Rightarrow> bool" where
  "endsWith s suffix = (length suffix \<le> length s \<and> drop (length s - length suffix) s = suffix)"

section \<open>Message classification (message.handler.ts, resolveMessageType)\<close>

text \<open>
  The body of the \<open>switch (key)\<close> statement: the message type a content key stands for,
  or \<open>None\<close> for the \<open>default\<close> branch, which goes on to the next key.
\<close>

definition keyType :: "string \<Rightarrow> string option" where
  "keyType key =
     (if key = ''conversation'' \<or> key = ''extendedTextMessage'' then Some ''chat''
      else if key = ''imageMessage'' then Some ''image''
      else if key = ''videoMessage'' then Some ''video''
      else if key = ''audioMessage'' then Some ''audio''
      else if key = ''documentMessage'' \<or> key = ''documentWithCaptionMessage'' then Some ''document''
      else if key = ''stickerMessage'' then Some ''sticker''
      else if key = ''locationMessage'' \<or> key = ''liveLocationMessage'' then Some ''location''
      else if key = ''contactMessage'' \<or> key = ''contactsArrayMessage'' then Some ''contact''
      else if key = ''pollCreationMessage'' \<or> key = ''pollUpdateMessage'' then Some ''poll''
      else if key = ''reactionMessage'' then Some ''reaction''
      else if key = ''protocolMessage'' \<or> key = ''senderKeyDistributionMessage'' then Some ''protocol''
      else None)"

text \<open>
  The loop \<open>for (const key of keys)\<close> over \<open>Object.keys(messageContent)\<close>: the keys are
  visited in the order the payload object lists them, and the first key with a
  \<open>case\<close> of its own returns.
\<close>

fun classifyKeys :: "string list \<Rightarrow> string" where
  "classifyKeys [] = ''unknown''"
| "classifyKeys (key # keys) =
     (case keyType key of Some t \<Rightarrow> t | None \<Rightarrow> classifyKeys keys)"

text \<open>
  The message content (\<open>proto.IMessage\<close>) is an object with one field per content
  kind. It is modelled as the list of its fields in the order \<open>Object.keys\<close> lists them;
  each field carries the parts of its value that the handler reads. \<open>OtherField k\<close> is a
  field under any other key \<open>k\<close> (for example \<open>messageContextInfo\<close>).
\<close>

datatype context_info = ContextInfo (stanzaId: "string option") (isForwarded: "bool option")

datatype content_field =
    Conversation "string option"
  | ExtendedTextMessage "string option" "context_info option"
  | ImageMessage "string option" "context_info option"
  | VideoMessage "string option" "context_info option"
  | AudioMessage "context_info option"
  | DocumentMessage "string option" "context_info option"
  | DocumentWithCaptionMessage "string option"
  | StickerMessage
  | LocationMessage "string option"
  | LiveLocationMessage "string option"
  | ContactMessage "string option"
  | ContactsArrayMessage
  | PollCreationMessage "string option"
  | PollUpdateMessage
  | ReactionMessage "string option"
  | ProtocolMessage
  | SenderKeyDistributionMessage
  | OtherField string

fun fieldKey :: "content_field \<Rightarrow> string" where
  "fieldKey (Conversation v) = ''conversation''"
| "fieldKey (ExtendedTextMessage v c) = ''extendedTextMessage''"
| "fieldKey (ImageMessage v c) = ''imageMessage''"
| "fieldKey (VideoMessage v c) = ''videoMessage''"
| "fieldKey (AudioMessage c) = ''audioMessage''"
| "fieldKey (DocumentMessage v c) = ''documentMessage''"
| "fieldKey (DocumentWithCaptionMessage v) = ''documentWithCaptionMessage''"
| "fieldKey StickerMessage = ''stickerMessage''"
| "fieldKey (LocationMessage v) = ''locationMessage''"
| "fieldKey (LiveLocationMessage v) = ''liveLocationMessage''"
| "fieldKey (ContactMessage v) = ''contactMessage''"
| "fieldKey ContactsArrayMessage = ''contactsArrayMessage''"
| "fieldKey (PollCreationMessage v) = ''pollCreationMessage''"
| "fieldKey PollUpdateMessage = ''pollUpdateMessage''"
| "fieldKey (ReactionMessage v) = ''reactionMessage''"
| "fieldKey ProtocolMessage = ''protocolMessage''"
| "fieldKey SenderKeyDistributionMessage = ''senderKeyDistributionMessage''"
| "fieldKey (OtherField k) = k"

definition objectKeys :: "content_field list \<Rightarrow> string list" where
  "objectKeys fields = map fieldKey fields"

definition resolveMessageType :: "content_field list option \<Rightarrow> string" where
  "resolveMessageType messageContent =
     (case messageContent of
        None \<Rightarrow> ''unknown''
      | Some fields \<Rightarrow> classifyKeys (objectKeys fields))"

section \<open>Logging\<close>

text \<open>
  Every logger call of the source appends one entry: its level, its message and the
  external id the call puts into the log context (\<open>messageId\<close>, \<open>chatId\<close>,
  \<open>contactId\<close> or \<open>groupId\<close>), when it has one.
\<close>

datatype log_level = Info | Warn | Error | Debug

datatype log_entry = Log log_level string "string option"

fun entry_level :: "log_entry \<Rightarrow> log_level" where
  "entry_level (Log l m c) = l"

section \<open>Connection service (whatsapp.service.ts, class WhatsAppService)\<close>

text \<open>
  The fields of the singleton are \<open>sock\<close>, \<open>reconnectAttempts\<close>, \<open>isConnecting\<close>
  and \<open>registeredHandlers\<close>. A socket handle is a number: \<open>makeWASocket\<close> returns a
  fresh one on each call (\<open>nextSock\<close>; \<open>made\<close> lists the sockets made, each with
  the options its configuration was built from). What the service does to the outside world is
  kept in the same record: the listeners attached with \<open>sock.ev.on\<close>, the callbacks
  handed to \<open>setTimeout\<close> that have not run yet (delay in milliseconds and the
  options captured by the closure), the sockets on which \<open>end\<close> was called, and the log.
\<close>

record connect_options =
  syncFullHistory :: "bool option"

record service =
  sock :: "nat option"
  reconnectAttempts :: nat
  isConnecting :: bool
  registeredHandlers :: "(string \<times> nat) list"
  listeners :: "(nat \<times> string \<times> nat) list"
  timers :: "(nat \<times> connect_options option) list"
  nextSock :: nat
  made :: "(nat \<times> connect_options option) list"
  ended :: "nat list"
  slog :: "log_entry list"

text \<open>\<open>private maxReconnectAttempts = 10\<close>; the field is never assigned again.\<close>

definition maxReconnectAttempts :: nat where
  "maxReconnectAttempts = 10"

text \<open>
  \<open>DisconnectReason.loggedOut\<close> is a constant of the transport library, whose value
  there is the status code 401.
\<close>

definition loggedOut :: int where
  "loggedOut = 401"

definition newService :: service where
  "newService = \<lparr> sock = None, reconnectAttempts = 0, isConnecting = False,
     registeredHandlers = [], listeners = [], timers = [], nextSock = 0, made = [],
     ended = [],
     slog = [] \<rparr>"

definition slog_add :: "log_level \<Rightarrow> string \<Rightarrow> service \<Rightarrow> service" where
  "slog_add l m s = s\<lparr>slog := slog s @ [Log l m None]\<rparr>"

text \<open>\<open>onPersistent(event, handler)\<close>.\<close>

definition onPersistent :: "string \<Rightarrow> nat \<Rightarrow> service \<Rightarrow> service" where
  "onPersistent event handler s =
     (let s1 = s\<lparr>registeredHandlers := registeredHandlers s @ [(event, handler)]\<rparr>
      in case sock s1 of
           None \<Rightarrow> s1
         | Some k \<Rightarrow> s1\<lparr>listeners := listeners s1 @ [(k, event, handler)]\<rparr>)"

text \<open>\<open>applyHandlers()\<close>.\<close>

definition applyHandlers :: "service \<Rightarrow> service" where
  "applyHandlers s =
     (case sock s of
        None \<Rightarrow> s
      | Some k \<Rightarrow>
          slog_add Info ''Event handlers registered on socket''
            (s\<lparr>listeners := listeners s @ map (\<lambda>(event, handler). (k, event, handler)) (registeredHandlers s)\<rparr>))"

text \<open>
  \<open>connect(options)\<close> is an async function. Its first part runs at the call, up to the
  first \<open>await\<close>: the guard on \<open>isConnecting\<close>, which returns the stored socket or throws,
  and the assignment \<open>isConnecting = true\<close>. A thrown error is \<open>Inl\<close> of its message, a
  returned socket is \<open>Inr\<close>.
\<close>

datatype connect_step = Finished "string + nat" | Awaiting

definition connect_enter :: "service \<Rightarrow> connect_step \<times> service" where
  "connect_enter s =
     (if isConnecting s then
        (let s1 = slog_add Warn ''Connection attempt already in progress'' s
         in case sock s1 of
              Some k \<Rightarrow> (Finished (Inr k), s1)
            | None \<Rightarrow> (Finished (Inl ''Connection in progress, socket not yet available''), s1))
      else (Awaiting, s\<lparr>isConnecting := True\<rparr>))"

text \<open>
  The rest of \<open>connect\<close> runs after the awaited \<open>createAuthState\<close> and
  \<open>createBaileysConfig\<close>. \<open>setup_ok\<close> says whether they and \<open>makeWASocket\<close> succeeded;
  when one of them throws, the \<open>catch\<close> clears \<open>isConnecting\<close> and rethrows. Otherwise the
  new socket is stored, the two listeners of the service (handler ids 0 and 1 here) are
  attached to it and \<open>applyHandlers\<close> runs.
\<close>

definition connect_resume :: "connect_options option \<Rightarrow> bool \<Rightarrow> service \<Rightarrow> (string + nat) \<times> service" where
  "connect_resume options setup_ok s =
     (if \<not> setup_ok then (Inl ''setup failed'', s\<lparr>isConnecting := False\<rparr>)
      else
        (let k = nextSock s;
             s1 = slog_add Info ''Creating WhatsApp socket'' s;
             s2 = s1\<lparr>sock := Some k, nextSock := Suc k, made := made s1 @ [(k, options)]\<rparr>;
             s3 = s2\<lparr>listeners := listeners s2 @ [(k, ''creds.update'', 0), (k, ''connection.update'', 1)]\<rparr>
         in (Inr k, applyHandlers s3)))"

text \<open>A call of \<open>connect\<close> that no other call interleaves with.\<close>

definition connect :: "connect_options option \<Rightarrow> bool \<Rightarrow> service \<Rightarrow> (string + nat) \<times> service" where
  "connect options setup_ok s =
     (case connect_enter s of
        (Finished r, s1) \<Rightarrow> (r, s1)
      | (Awaiting, s1) \<Rightarrow> connect_resume options setup_ok s1)"

text \<open>
  The \<open>connection.update\<close> event: \<open>connection\<close>, the status code read through
  \<open>lastDisconnect?.error?.output?.statusCode\<close> and \<open>qr\<close>.
\<close>

datatype connection_state = Close | Open | Connecting

record connection_update =
  connection :: "connection_state option"
  statusCode :: "int option"
  qr :: "string option"

text \<open>
  The listener that \<open>connect(options)\<close> attaches to its socket. \<open>options\<close> is the
  argument of that call, captured by the closure and handed on to the scheduled
  reconnect. Writing the QR image touches only the file system and is a log entry here.
\<close>

definition backoffDelay :: "nat \<Rightarrow> nat" where
  "backoffDelay attempts = min (1000 * 2 ^ attempts) 60000"

definition onConnectionUpdate :: "connect_options option \<Rightarrow> connection_update \<Rightarrow> service \<Rightarrow> service" where
  "onConnectionUpdate options update s0 =
     (let s = (if truthy (qr update) then slog_add Info ''QR code received, saving as image...'' s0 else s0)
      in if connection update = Some Close then
           (let isLoggedOut = (statusCode update = Some loggedOut);
                s1 = slog_add Warn ''Connection closed'' s;
                s2 = s1\<lparr>isConnecting := False\<rparr>
            in if isLoggedOut then
                 (slog_add Error ''Logged out from WhatsApp. Manual re-authentication required.'' s2)\<lparr>sock := None\<rparr>
               else if reconnectAttempts s2 < maxReconnectAttempts then
                 (let s3 = s2\<lparr>reconnectAttempts := Suc (reconnectAttempts s2)\<rparr>;
                      delay = backoffDelay (reconnectAttempts s3);
                      s4 = slog_add Info ''Reconnecting with exponential backoff...'' s3
                  in s4\<lparr>timers := timers s4 @ [(delay, options)]\<rparr>)
               else
                 (slog_add Error ''Max reconnection attempts reached. Giving up.'' s2)\<lparr>sock := None\<rparr>)
         else if connection update = Some Open then
           slog_add Info ''Connected to WhatsApp successfully''
             (s\<lparr>reconnectAttempts := 0, isConnecting := False\<rparr>)
         else s)"

text \<open>
  A scheduled callback runs: \<open>this.connect(options).catch(...)\<close>. Nothing in the class
  calls \<open>clearTimeout\<close>, and the callback tests no field before it calls \<open>connect\<close>.
\<close>

definition fireTimer :: "nat \<Rightarrow> bool \<Rightarrow> service \<Rightarrow> service" where
  "fireTimer i setup_ok s =
     (if i < length (timers s) then
        (let s1 = s\<lparr>timers := take i (timers s) @ drop (Suc i) (timers s)\<rparr>;
             options = snd (timers s ! i)
         in case connect options setup_ok s1 of
              (Inl err, s2) \<Rightarrow> slog_add Error ''Reconnection failed'' s2
            | (Inr k, s2) \<Rightarrow> s2)
      else s)"

text \<open>\<open>disconnect()\<close>.\<close>

definition disconnect :: "service \<Rightarrow> service" where
  "disconnect s =
     (case sock s of
        None \<Rightarrow> s
      | Some k \<Rightarrow>
          (let s1 = slog_add Info ''Disconnecting WhatsApp socket...'' s;
               s2 = s1\<lparr>ended := ended s1 @ [k], sock := None, isConnecting := False\<rparr>
           in slog_add Info ''WhatsApp socket disconnected'' s2))"

section \<open>Entity store (models and migrations/001_initial_schema.sql)\<close>

text \<open>
  One record per table, with the columns the handlers read or write. The primary key
  \<open>id\<close> of a table is a number taken from the table's sequence. Dates are epoch
  milliseconds.
\<close>

record chat_row =
  c_id :: nat
  c_chat_id :: string
  c_chat_type :: string
  c_name :: "string option"
  c_is_archived :: bool
  c_is_pinned :: bool
  c_is_muted :: bool
  c_unread_count :: int
  c_last_message_at :: "int option"
  c_last_message_preview :: "string option"

record contact_row =
  ct_contact_id :: string
  ct_name :: "string option"
  ct_avatar_url :: "string option"
  ct_about :: "string option"
  ct_last_seen_at :: "int option"

record message_row =
  m_id :: nat
  m_message_id :: string
  m_chat_id :: nat
  m_sender_id :: string
  m_sender_name :: "string option"
  m_is_from_me :: bool
  m_body :: "string option"
  m_message_type :: string
  m_has_media :: bool
  m_media_caption :: "string option"
  m_timestamp :: int
  m_is_forwarded :: bool
  m_quoted_message_id :: "nat option"

record group_row =
  g_id :: nat
  g_chat_id :: nat
  g_subject :: "string option"
  g_owner :: "string option"
  g_description :: "string option"
  g_announce :: bool
  g_restrict_mode :: bool
  g_join_approval_mode :: bool
  g_member_add_mode :: bool
  g_ephemeral_duration :: "int option"

record tables =
  chats :: "chat_row list"
  contacts :: "contact_row list"
  messages :: "message_row list"
  groups :: "group_row list"
  next_chat_id :: nat
  next_message_id :: nat
  next_group_id :: nat

text \<open>
  The store is an external collaborator and any write may be refused by it (a column
  constraint, a lost connection): the call then throws. Which rows the store refuses to
  write is a parameter of the model, one predicate per table. A refused write changes
  nothing.
\<close>

record rules =
  rej_chat :: "chat_row \<Rightarrow> bool"
  rej_contact :: "contact_row \<Rightarrow> bool"
  rej_message :: "message_row \<Rightarrow> bool"
  rej_group :: "group_row \<Rightarrow> bool"

datatype store_error = PersistenceError

text \<open>A store that refuses nothing.\<close>

definition acceptAll :: rules where
  "acceptAll = \<lparr> rej_chat = (\<lambda>r. False), rej_contact = (\<lambda>r. False),
     rej_message = (\<lambda>r. False), rej_group = (\<lambda>r. False) \<rparr>"

text \<open>
  The column widths of the schema as rules: \<open>chat_id VARCHAR(255)\<close> and
  \<open>name VARCHAR(255)\<close> of \<open>chats\<close>, \<open>contact_id VARCHAR(100)\<close> and
  \<open>name VARCHAR(255)\<close> of \<open>contacts\<close>, \<open>message_id VARCHAR(255)\<close>,
  \<open>sender_id VARCHAR(100)\<close> and \<open>sender_name VARCHAR(255)\<close> of \<open>messages\<close>,
  \<open>subject VARCHAR(255)\<close> and \<open>owner VARCHAR(100)\<close> of \<open>group_metadata\<close>.
\<close>

definition fits :: "nat \<Rightarrow> string option \<Rightarrow> bool" where
  "fits n v = (case v of None \<Rightarrow> True | Some t \<Rightarrow> length t \<le> n)"

definition schemaRules :: rules where
  "schemaRules = \<lparr>
     rej_chat = (\<lambda>r. \<not> (length (c_chat_id r) \<le> 255 \<and> fits 255 (c_name r))),
     rej_contact = (\<lambda>r. \<not> (length (ct_contact_id r) \<le> 100 \<and> fits 255 (ct_name r))),
     rej_message = (\<lambda>r. \<not> (length (m_message_id r) \<le> 255 \<and> length (m_sender_id r) \<le> 100
                              \<and> fits 255 (m_sender_name r))),
     rej_group = (\<lambda>r. \<not> (fits 255 (g_subject r) \<and> fits 100 (g_owner r))) \<rparr>"

definition emptyTables :: tables where
  "emptyTables = \<lparr> chats = [], contacts = [], messages = [], groups = [],
     next_chat_id = 1, next_message_id = 1, next_group_id = 1 \<rparr>"

subsection \<open>Chat\<close>

text \<open>
  A set of column assignments (the \<open>changes\<close> object of the handlers, the argument of
  \<open>update\<close>) is the list of them in the order the source adds them.
\<close>

datatype chat_change =
    Set_is_archived bool
  | Set_is_pinned bool
  | Set_is_muted bool
  | Set_name "string option"
  | Set_unread_count int
  | Set_last_message_at int
  | Set_last_message_preview string

fun chatAssign :: "chat_row \<Rightarrow> chat_change \<Rightarrow> chat_row" where
  "chatAssign r (Set_is_archived v) = r\<lparr>c_is_archived := v\<rparr>"
| "chatAssign r (Set_is_pinned v) = r\<lparr>c_is_pinned := v\<rparr>"
| "chatAssign r (Set_is_muted v) = r\<lparr>c_is_muted := v\<rparr>"
| "chatAssign r (Set_name v) = r\<lparr>c_name := v\<rparr>"
| "chatAssign r (Set_unread_count v) = r\<lparr>c_unread_count := v\<rparr>"
| "chatAssign r (Set_last_message_at v) = r\<lparr>c_last_message_at := Some v\<rparr>"
| "chatAssign r (Set_last_message_preview v) = r\<lparr>c_last_message_preview := Some v\<rparr>"

definition Chat_findOne :: "tables \<Rightarrow> string \<Rightarrow> chat_row option" where
  "Chat_findOne t jid = find (\<lambda>r. c_chat_id r = jid) (chats t)"

text \<open>
  \<open>Chat.findOrCreate({ where: { chat_id }, defaults: { chat_id, chat_type, name } })\<close>:
  the row found, or a new row with the defaults of the call and of the schema. The
  result is the table state, the row and the \<open>created\<close> flag.
\<close>

definition Chat_findOrCreate ::
  "rules \<Rightarrow> tables \<Rightarrow> string \<Rightarrow> string \<Rightarrow> string option \<Rightarrow> store_error + (tables \<times> chat_row \<times> bool)" where
  "Chat_findOrCreate R t jid chatType name =
     (case Chat_findOne t jid of
        Some r \<Rightarrow> Inr (t, r, False)
      | None \<Rightarrow>
          (let r = \<lparr> c_id = next_chat_id t, c_chat_id = jid, c_chat_type = chatType, c_name = name,
                     c_is_archived = False, c_is_pinned = False, c_is_muted = False,
                     c_unread_count = 0, c_last_message_at = None,
                     c_last_message_preview = None \<rparr>
           in if rej_chat R r then Inl PersistenceError
              else Inr (t\<lparr>chats := chats t @ [r], next_chat_id := Suc (next_chat_id t)\<rparr>, r, True)))"

text \<open>\<open>chat.update(changes)\<close> on the instance with primary key \<open>pk\<close>.\<close>

definition Chat_update :: "rules \<Rightarrow> tables \<Rightarrow> nat \<Rightarrow> chat_change list \<Rightarrow> store_error + tables" where
  "Chat_update R t pk changes =
     (if \<exists>r \<in> set (chats t). c_id r = pk \<and> rej_chat R (foldl chatAssign r changes)
      then Inl PersistenceError
      else Inr (t\<lparr>chats := map (\<lambda>r. if c_id r = pk then foldl chatAssign r changes else r) (chats t)\<rparr>))"

subsection \<open>Contact\<close>

datatype contact_change =
    Set_ct_name "string option"
  | Set_avatar_url "string option"
  | Set_about "string option"
  | Set_last_seen_at int

fun contactAssign :: "contact_row \<Rightarrow> contact_change \<Rightarrow> contact_row" where
  "contactAssign r (Set_ct_name v) = r\<lparr>ct_name := v\<rparr>"
| "contactAssign r (Set_avatar_url v) = r\<lparr>ct_avatar_url := v\<rparr>"
| "contactAssign r (Set_about v) = r\<lparr>ct_about := v\<rparr>"
| "contactAssign r (Set_last_seen_at v) = r\<lparr>ct_last_seen_at := Some v\<rparr>"

definition Contact_findOne :: "tables \<Rightarrow> string \<Rightarrow> contact_row option" where
  "Contact_findOne t cid = find (\<lambda>r. ct_contact_id r = cid) (contacts t)"

definition Contact_findOrCreate ::
  "rules \<Rightarrow> tables \<Rightarrow> string \<Rightarrow> string option \<Rightarrow> string option \<Rightarrow> string option
     \<Rightarrow> store_error + (tables \<times> contact_row \<times> bool)" where
  "Contact_findOrCreate R t cid name avatar ab =
     (case Contact_findOne t cid of
        Some r \<Rightarrow> Inr (t, r, False)
      | None \<Rightarrow>
          (let r = \<lparr> ct_contact_id = cid, ct_name = name, ct_avatar_url = avatar, ct_about = ab,
                     ct_last_seen_at = None \<rparr>
           in if rej_contact R r then Inl PersistenceError
              else Inr (t\<lparr>contacts := contacts t @ [r]\<rparr>, r, True)))"

definition Contact_update :: "rules \<Rightarrow> tables \<Rightarrow> string \<Rightarrow> contact_change list \<Rightarrow> store_error + tables" where
  "Contact_update R t cid changes =
     (if \<exists>r \<in> set (contacts t). ct_contact_id r = cid \<and> rej_contact R (foldl contactAssign r changes)
      then Inl PersistenceError
      else Inr (t\<lparr>contacts := map (\<lambda>r. if ct_contact_id r = cid then foldl contactAssign r changes else r) (contacts t)\<rparr>))"

subsection \<open>Message\<close>

definition Message_findOne :: "tables \<Rightarrow> string \<Rightarrow> message_row option" where
  "Message_findOne t mid = find (\<lambda>r. m_message_id r = mid) (messages t)"

text \<open>
  \<open>Message.findOrCreate({ where: { message_id }, defaults })\<close>; \<open>defaults\<close> is the row
  to insert, whose primary key the store assigns.
\<close>

definition Message_findOrCreate ::
  "rules \<Rightarrow> tables \<Rightarrow> string \<Rightarrow> message_row \<Rightarrow> store_error + (tables \<times> message_row \<times> bool)" where
  "Message_findOrCreate R t mid defaults =
     (case Message_findOne t mid of
        Some r \<Rightarrow> Inr (t, r, False)
      | None \<Rightarrow>
          (let r = defaults\<lparr>m_id := next_message_id t\<rparr>
           in if rej_message R r then Inl PersistenceError
              else Inr (t\<lparr>messages := messages t @ [r], next_message_id := Suc (next_message_id t)\<rparr>, r, True)))"

subsection \<open>GroupMetadata\<close>

datatype group_change =
    Set_subject string
  | Set_owner string
  | Set_description string
  | Set_announce bool
  | Set_restrict_mode bool
  | Set_join_approval_mode bool
  | Set_member_add_mode bool
  | Set_ephemeral_duration int

fun groupAssign :: "group_row \<Rightarrow> group_change \<Rightarrow> group_row" where
  "groupAssign r (Set_subject v) = r\<lparr>g_subject := Some v\<rparr>"
| "groupAssign r (Set_owner v) = r\<lparr>g_owner := Some v\<rparr>"
| "groupAssign r (Set_description v) = r\<lparr>g_description := Some v\<rparr>"
| "groupAssign r (Set_announce v) = r\<lparr>g_announce := v\<rparr>"
| "groupAssign r (Set_restrict_mode v) = r\<lparr>g_restrict_mode := v\<rparr>"
| "groupAssign r (Set_join_approval_mode v) = r\<lparr>g_join_approval_mode := v\<rparr>"
| "groupAssign r (Set_member_add_mode v) = r\<lparr>g_member_add_mode := v\<rparr>"
| "groupAssign r (Set_ephemeral_duration v) = r\<lparr>g_ephemeral_duration := Some v\<rparr>"

definition GroupMetadata_findOne :: "tables \<Rightarrow> nat \<Rightarrow> group_row option" where
  "GroupMetadata_findOne t chatPk = find (\<lambda>r. g_chat_id r = chatPk) (groups t)"

text \<open>
  \<open>GroupMetadata.findOrCreate({ where: { chat_id }, defaults: { chat_id, ...changes } })\<close>.
\<close>

definition GroupMetadata_findOrCreate ::
  "rules \<Rightarrow> tables \<Rightarrow> nat \<Rightarrow> group_change list \<Rightarrow> store_error + (tables \<times> group_row \<times> bool)" where
  "GroupMetadata_findOrCreate R t chatPk changes =
     (case GroupMetadata_findOne t chatPk of
        Some r \<Rightarrow> Inr (t, r, False)
      | None \<Rightarrow>
          (let r = foldl groupAssign
                     \<lparr> g_id = next_group_id t, g_chat_id = chatPk, g_subject = None, g_owner = None,
                       g_description = None, g_announce = False, g_restrict_mode = False,
                       g_join_approval_mode = False, g_member_add_mode = False,
                       g_ephemeral_duration = None \<rparr> changes
           in if rej_group R r then Inl PersistenceError
              else Inr (t\<lparr>groups := groups t @ [r], next_group_id := Suc (next_group_id t)\<rparr>, r, True)))"

definition GroupMetadata_update :: "rules \<Rightarrow> tables \<Rightarrow> nat \<Rightarrow> group_change list \<Rightarrow> store_error + tables" where
  "GroupMetadata_update R t pk changes =
     (if \<exists>r \<in> set (groups t). g_id r = pk \<and> rej_group R (foldl groupAssign r changes)
      then Inl PersistenceError
      else Inr (t\<lparr>groups := map (\<lambda>r. if g_id r = pk then foldl groupAssign r changes else r) (groups t)\<rparr>))"

text \<open>
  The state the handlers run on: the committed tables, the working copy of the open
  transaction when there is one, and the log.
\<close>

record db =
  committed :: tables
  open_tx :: "tables option"
  logs :: "log_entry list"

definition newDb :: db where
  "newDb = \<lparr> committed = emptyTables, open_tx = None, logs = [] \<rparr>"

definition logAdd :: "log_level \<Rightarrow> string \<Rightarrow> string option \<Rightarrow> db \<Rightarrow> db" where
  "logAdd l m c d = d\<lparr>logs := logs d @ [Log l m c]\<rparr>"

section \<open>Message handler (message.handler.ts)\<close>

record message_key =
  remoteJid :: "string option"
  key_id :: "string option"
  participant :: "string option"
  fromMe :: "bool option"

text \<open>\<open>messageTimestamp\<close>: a number, or a Long object with a low and a high word.\<close>

datatype message_timestamp = TsNumber int | TsLong int int

record web_message =
  key :: "message_key option"
  message :: "content_field list option"
  pushName :: "string option"
  messageTimestamp :: "message_timestamp option"

text \<open>\<open>messageContent.k\<close> for a key \<open>k\<close>: the first field under that key.\<close>

definition fieldAt :: "string \<Rightarrow> content_field list \<Rightarrow> content_field option" where
  "fieldAt k content = find (\<lambda>f. fieldKey f = k) content"

text \<open>
  The text a field carries: the string of \<open>conversation\<close>, \<open>text\<close> of an extended text,
  \<open>caption\<close> of a media or live location message, \<open>name\<close> of a poll or location,
  \<open>text\<close> of a reaction, \<open>displayName\<close> of a contact.
\<close>

fun fieldText :: "content_field \<Rightarrow> string option" where
  "fieldText (Conversation v) = v"
| "fieldText (ExtendedTextMessage v c) = v"
| "fieldText (ImageMessage v c) = v"
| "fieldText (VideoMessage v c) = v"
| "fieldText (DocumentMessage v c) = v"
| "fieldText (DocumentWithCaptionMessage v) = v"
| "fieldText (LocationMessage v) = v"
| "fieldText (LiveLocationMessage v) = v"
| "fieldText (ContactMessage v) = v"
| "fieldText (PollCreationMessage v) = v"
| "fieldText (ReactionMessage v) = v"
| "fieldText f = None"

fun fieldContext :: "content_field \<Rightarrow> context_info option" where
  "fieldContext (ExtendedTextMessage v c) = c"
| "fieldContext (ImageMessage v c) = c"
| "fieldContext (VideoMessage v c) = c"
| "fieldContext (AudioMessage c) = c"
| "fieldContext (DocumentMessage v c) = c"
| "fieldContext f = None"

definition textAt :: "string \<Rightarrow> content_field list \<Rightarrow> string option" where
  "textAt k content = (case fieldAt k content of None \<Rightarrow> None | Some f \<Rightarrow> fieldText f)"

definition contextAt :: "string \<Rightarrow> content_field list \<Rightarrow> context_info option" where
  "contextAt k content = (case fieldAt k content of None \<Rightarrow> None | Some f \<Rightarrow> fieldContext f)"

text \<open>\<open>extractBody\<close>: the chain of \<open>||\<close> that ends in \<open>null\<close>.\<close>

definition extractBody :: "content_field list option \<Rightarrow> string option" where
  "extractBody messageContent =
     (case messageContent of
        None \<Rightarrow> None
      | Some content \<Rightarrow>
          foldr js_or
            (map (\<lambda>k. textAt k content)
               [''conversation'', ''extendedTextMessage'', ''imageMessage'', ''videoMessage'',
                ''documentMessage'', ''documentWithCaptionMessage'', ''pollCreationMessage'',
                ''reactionMessage'', ''contactMessage'', ''locationMessage'',
                ''liveLocationMessage''])
            None)"

definition chatTypeFromJid :: "string \<Rightarrow> string" where
  "chatTypeFromJid jid =
     (if endsWith jid ''@g.us'' then ''group''
      else if endsWith jid ''@broadcast'' then ''broadcast''
      else ''private'')"

text \<open>\<open>extractTimestamp\<close>; \<open>now\<close> is what \<open>new Date()\<close> gives at the call.\<close>

definition extractTimestamp :: "int \<Rightarrow> message_timestamp option \<Rightarrow> int" where
  "extractTimestamp now ts =
     (case ts of
        None \<Rightarrow> now
      | Some (TsLong low high) \<Rightarrow> low * 1000
      | Some (TsNumber n) \<Rightarrow> n * 1000)"

definition hasMedia :: "string \<Rightarrow> bool" where
  "hasMedia messageType = (messageType \<in> set [''image'', ''video'', ''audio'', ''document'', ''sticker''])"

text \<open>
  The \<open>contextInfo\<close> of the message: the first one present among the extended text,
  image, video, audio and document fields.
\<close>

definition contextInfoOf :: "content_field list option \<Rightarrow> context_info option" where
  "contextInfoOf messageContent =
     (case messageContent of
        None \<Rightarrow> None
      | Some content \<Rightarrow>
          List.find (\<lambda>c. True)
            (List.map_filter (\<lambda>k. contextAt k content)
               [''extendedTextMessage'', ''imageMessage'', ''videoMessage'', ''audioMessage'',
                ''documentMessage'']))"

definition isForwardedOf :: "content_field list option \<Rightarrow> bool" where
  "isForwardedOf messageContent =
     (let viaContext = (case contextInfoOf messageContent of
                          None \<Rightarrow> False
                        | Some c \<Rightarrow> isForwarded c = Some True);
          viaText = (case messageContent of
                       None \<Rightarrow> False
                     | Some content \<Rightarrow>
                         (case contextAt ''extendedTextMessage'' content of
                            None \<Rightarrow> False
                          | Some c \<Rightarrow> isForwarded c = Some True))
      in viaContext \<or> viaText)"

text \<open>
  The body of the \<open>try\<close> block of \<open>handleUpsert\<close>, from the first store call on. Every
  store call may throw; the \<open>catch\<close> of the loop then logs the failure with the
  message id and the loop goes on with the next message. What the calls before the
  failing one wrote stays written: the handler opens no transaction. The columns of
  \<open>messages\<close> that only copy payload data (\<open>media_mimetype\<close>, \<open>media_filename\<close>,
  \<open>mentions\<close>, \<open>poll_data\<close>, \<open>location_data\<close>, \<open>contact_data\<close>, \<open>raw_data\<close>) are
  left out of \<open>message_row\<close>.
\<close>

text \<open>\<open>key.participant || key.remoteJid || ''\<close>.\<close>

definition senderIdOf :: "message_key \<Rightarrow> string" where
  "senderIdOf k =
     (case js_or (participant k) (js_or (remoteJid k) (Some [])) of
        Some v \<Rightarrow> v
      | None \<Rightarrow> [])"

definition failedMessage :: "web_message \<Rightarrow> tables \<Rightarrow> db \<Rightarrow> db" where
  "failedMessage msg t d =
     logAdd Error ''Failed to process message''
       (case key msg of None \<Rightarrow> None | Some k \<Rightarrow> key_id k)
       (d\<lparr>committed := t\<rparr>)"

text \<open>The sender's contact is looked up or created only when \<open>senderId\<close> is not empty.\<close>

definition findOrCreateSender :: "rules \<Rightarrow> tables \<Rightarrow> string \<Rightarrow> string option \<Rightarrow> store_error + tables" where
  "findOrCreateSender R t senderId name =
     (if senderId \<noteq> [] then
        (case Contact_findOrCreate R t senderId name None None of
           Inl err \<Rightarrow> Inl err
         | Inr (t1, contact, created) \<Rightarrow> Inr t1)
      else Inr t)"

text \<open>
  The quoted message: \<open>contextInfo?.stanzaId || null\<close>, resolved with
  \<open>Message.findOne\<close> to the primary key of the row, or \<open>null\<close> when there is no such row.
\<close>

definition quotedMessageDbId :: "tables \<Rightarrow> content_field list option \<Rightarrow> nat option" where
  "quotedMessageDbId t messageContent =
     (let contextInfo = contextInfoOf messageContent;
          quotedStanzaId = (case contextInfo of None \<Rightarrow> None | Some c \<Rightarrow> or_null (stanzaId c))
      in case quotedStanzaId of
           None \<Rightarrow> None
         | Some q \<Rightarrow> map_option m_id (Message_findOne t q))"

text \<open>The \<open>defaults\<close> of \<open>Message.findOrCreate\<close>; the store assigns \<open>id\<close>.\<close>

definition messageDefaults ::
  "int \<Rightarrow> web_message \<Rightarrow> message_key \<Rightarrow> string \<Rightarrow> nat \<Rightarrow> nat option \<Rightarrow> message_row" where
  "messageDefaults now msg k messageId chatPk quoted =
     (let messageContent = message msg;
          messageType = resolveMessageType messageContent;
          body = extractBody messageContent;
          msgHasMedia = hasMedia messageType
      in \<lparr> m_id = 0, m_message_id = messageId, m_chat_id = chatPk,
           m_sender_id = senderIdOf k, m_sender_name = or_null (pushName msg),
           m_is_from_me = (case fromMe k of Some b \<Rightarrow> b | None \<Rightarrow> False), m_body = body,
           m_message_type = messageType, m_has_media = msgHasMedia,
           m_media_caption = (if msgHasMedia then body else None),
           m_timestamp = extractTimestamp now (messageTimestamp msg),
           m_is_forwarded = isForwardedOf messageContent,
           m_quoted_message_id = quoted \<rparr>)"

text \<open>
  The \<open>chatUpdate\<close> object written after a first insertion: activity time, preview, and
  the name from \<open>pushName\<close> for a private chat that has none, when the message is inbound.
\<close>

definition chatUpdateFor :: "int \<Rightarrow> web_message \<Rightarrow> message_key \<Rightarrow> string \<Rightarrow> chat_row \<Rightarrow> chat_change list" where
  "chatUpdateFor now msg k chatJid chat =
     (let messageType = resolveMessageType (message msg);
          body = extractBody (message msg);
          pushName' = or_null (pushName msg);
          isFromMe = (case fromMe k of Some b \<Rightarrow> b | None \<Rightarrow> False)
      in [Set_last_message_at (extractTimestamp now (messageTimestamp msg)),
          Set_last_message_preview
            (if truthy body then take 200 (case body of Some b \<Rightarrow> b | None \<Rightarrow> [])
             else ''['' @ messageType @ '']'')]
         @ (if \<not> truthy (c_name chat) \<and> truthy pushName' \<and> \<not> isFromMe
                \<and> chatTypeFromJid chatJid = ''private''
            then [Set_name pushName'] else []))"

definition saveMessage :: "rules \<Rightarrow> int \<Rightarrow> db \<Rightarrow> web_message \<Rightarrow> string \<Rightarrow> string \<Rightarrow> message_key \<Rightarrow> db" where
  "saveMessage R now d msg chatJid messageId k =
     (if resolveMessageType (message msg) = ''protocol'' then
        logAdd Debug ''Skipping protocol message'' (Some messageId) d
      else
        (case Chat_findOrCreate R (committed d) chatJid (chatTypeFromJid chatJid) None of
           Inl err \<Rightarrow> failedMessage msg (committed d) d
         | Inr (t1, chat, chatCreated) \<Rightarrow>
             (case findOrCreateSender R t1 (senderIdOf k) (or_null (pushName msg)) of
                Inl err \<Rightarrow> failedMessage msg t1 d
              | Inr t2 \<Rightarrow>
                  (case Message_findOrCreate R t2 messageId
                          (messageDefaults now msg k messageId (c_id chat)
                             (quotedMessageDbId t2 (message msg))) of
                     Inl err \<Rightarrow> failedMessage msg t2 d
                   | Inr (t3, savedMsg, created) \<Rightarrow>
                       if created then
                         (let d3 = logAdd Info ''Message saved'' (Some messageId) d
                          in case Chat_update R t3 (c_id chat) (chatUpdateFor now msg k chatJid chat) of
                               Inl err \<Rightarrow> failedMessage msg t3 d3
                             | Inr t4 \<Rightarrow> d3\<lparr>committed := t4\<rparr>)
                       else
                         (logAdd Debug ''Message already exists, skipped'' (Some messageId) d)
                           \<lparr>committed := t3\<rparr>))))"

text \<open>One turn of the loop \<open>for (const msg of messages)\<close>.\<close>

definition upsertMessage :: "rules \<Rightarrow> int \<Rightarrow> db \<Rightarrow> web_message \<Rightarrow> db" where
  "upsertMessage R now d msg =
     (case key msg of
        None \<Rightarrow> logAdd Warn ''Skipping message with missing key fields'' None d
      | Some k \<Rightarrow>
          (case (remoteJid k, key_id k) of
             (Some chatJid, Some messageId) \<Rightarrow>
               if chatJid = [] \<or> messageId = [] then
                 logAdd Warn ''Skipping message with missing key fields'' None d
               else saveMessage R now d msg chatJid messageId k
           | other \<Rightarrow> logAdd Warn ''Skipping message with missing key fields'' None d))"

text \<open>
  \<open>MessageHandler.handleUpsert({ messages, type })\<close>. It returns normally whatever the
  store does: every throw inside the loop is caught inside the loop.
\<close>

definition handleUpsert :: "rules \<Rightarrow> int \<Rightarrow> db \<Rightarrow> web_message list \<Rightarrow> db" where
  "handleUpsert R now d msgs =
     foldl (upsertMessage R now) (logAdd Info ''Processing message upsert'' None d) msgs"

section \<open>Chat handler (chat.handler.ts, ChatHandler.handleUpdate)\<close>

text \<open>
  A field of an update payload is absent (\<open>undefined\<close>), present with the value
  \<open>null\<close>, or present with a value.
\<close>

datatype 'a field = Undefined | Null | Val 'a

record chat_update =
  cu_id :: string
  cu_archive :: "bool field"
  cu_pin :: "int field"
  cu_mute :: "int field"
  cu_name :: "string field"
  cu_unreadCount :: "int field"

text \<open>The \<open>changes\<close> object, built by the five \<open>if\<close> statements in their order.\<close>

definition chatChanges :: "chat_update \<Rightarrow> chat_change list" where
  "chatChanges u =
     (case cu_archive u of Val b \<Rightarrow> [Set_is_archived b] | Null \<Rightarrow> [] | Undefined \<Rightarrow> [])
     @ (case cu_pin u of Val n \<Rightarrow> [Set_is_pinned (n > 0)] | Null \<Rightarrow> [] | Undefined \<Rightarrow> [])
     @ (case cu_mute u of Val n \<Rightarrow> [Set_is_muted (n > 0)] | Null \<Rightarrow> [] | Undefined \<Rightarrow> [])
     @ (case cu_name u of Val n \<Rightarrow> [Set_name (Some n)] | Null \<Rightarrow> [Set_name None] | Undefined \<Rightarrow> [])
     @ (case cu_unreadCount u of Val n \<Rightarrow> [Set_unread_count n] | Null \<Rightarrow> [] | Undefined \<Rightarrow> [])"

definition chatUpdateItem :: "rules \<Rightarrow> db \<Rightarrow> chat_update \<Rightarrow> db" where
  "chatUpdateItem R d u =
     (if cu_id u = [] then logAdd Warn ''Skipping chat update with missing id'' None d
      else
        (case Chat_findOne (committed d) (cu_id u) of
           None \<Rightarrow> logAdd Debug ''Chat not found for update, skipping'' (Some (cu_id u)) d
         | Some chat \<Rightarrow>
             (let changes = chatChanges u
              in if changes \<noteq> [] then
                   (case Chat_update R (committed d) (c_id chat) changes of
                      Inl err \<Rightarrow> logAdd Error ''Failed to process chat update'' (Some (cu_id u)) d
                    | Inr t \<Rightarrow> logAdd Info ''Chat updated'' (Some (cu_id u)) (d\<lparr>committed := t\<rparr>))
                 else d)))"

definition ChatHandler_handleUpdate :: "rules \<Rightarrow> db \<Rightarrow> chat_update list \<Rightarrow> db" where
  "ChatHandler_handleUpdate R d updates =
     foldl (chatUpdateItem R) (logAdd Info ''Processing chat updates'' None d) updates"

section \<open>Contact handler (contact.handler.ts, ContactHandler.handleUpdate)\<close>

record contact_update =
  co_id :: string
  co_name :: "string field"
  co_notify :: "string field"
  co_imgUrl :: "string field"
  co_status :: "string field"

text \<open>A payload field read as a value: \<open>undefined\<close> and \<open>null\<close> are both falsy.\<close>

definition fieldValue :: "'a field \<Rightarrow> 'a option" where
  "fieldValue f = (case f of Val v \<Rightarrow> Some v | Null \<Rightarrow> None | Undefined \<Rightarrow> None)"

text \<open>\<open>const contactName = update.name || update.notify || null\<close>.\<close>

definition contactNameOf :: "contact_update \<Rightarrow> string option" where
  "contactNameOf u = or_null (js_or (fieldValue (co_name u)) (fieldValue (co_notify u)))"

text \<open>The \<open>changes\<close> object for a contact that already exists.\<close>

definition contactChanges :: "contact_update \<Rightarrow> contact_change list" where
  "contactChanges u =
     (case contactNameOf u of Some n \<Rightarrow> [Set_ct_name (Some n)] | None \<Rightarrow> [])
     @ (case co_imgUrl u of Val v \<Rightarrow> [Set_avatar_url (Some v)] | Null \<Rightarrow> [Set_avatar_url None] | Undefined \<Rightarrow> [])
     @ (case co_status u of Val v \<Rightarrow> [Set_about (Some v)] | Null \<Rightarrow> [Set_about None] | Undefined \<Rightarrow> [])"

definition contactUpdateItem :: "rules \<Rightarrow> int \<Rightarrow> db \<Rightarrow> contact_update \<Rightarrow> db" where
  "contactUpdateItem R now d u =
     (if co_id u = [] then logAdd Warn ''Skipping contact update with missing id'' None d
      else
        (case Contact_findOrCreate R (committed d) (co_id u) (contactNameOf u)
                (or_null (fieldValue (co_imgUrl u))) (or_null (fieldValue (co_status u))) of
           Inl err \<Rightarrow> logAdd Error ''Failed to process contact update'' (Some (co_id u)) d
         | Inr (t1, contact, created) \<Rightarrow>
             if \<not> created then
               (let changes = contactChanges u
                in if changes \<noteq> [] then
                     (case Contact_update R t1 (ct_contact_id contact) (changes @ [Set_last_seen_at now]) of
                        Inl err \<Rightarrow> logAdd Error ''Failed to process contact update'' (Some (co_id u)) (d\<lparr>committed := t1\<rparr>)
                      | Inr t2 \<Rightarrow> logAdd Info ''Contact updated'' (Some (co_id u)) (d\<lparr>committed := t2\<rparr>))
                   else d\<lparr>committed := t1\<rparr>)
             else logAdd Info ''Contact created'' (Some (co_id u)) (d\<lparr>committed := t1\<rparr>)))"

definition ContactHandler_handleUpdate :: "rules \<Rightarrow> int \<Rightarrow> db \<Rightarrow> contact_update list \<Rightarrow> db" where
  "ContactHandler_handleUpdate R now d updates =
     foldl (contactUpdateItem R now) (logAdd Info ''Processing contact updates'' None d) updates"

section \<open>Group handler (group.handler.ts, GroupHandler.handleGroupUpdate)\<close>

text \<open>The optional fields of \<open>GroupUpdate\<close> are declared without \<open>null\<close>.\<close>

record group_update =
  gu_id :: string
  gu_subject :: "string option"
  gu_owner :: "string option"
  gu_desc :: "string option"
  gu_announce :: "bool option"
  gu_restrict :: "bool option"
  gu_joinApprovalMode :: "bool option"
  gu_memberAddMode :: "bool option"
  gu_ephemeralDuration :: "int option"

definition groupChanges :: "group_update \<Rightarrow> group_change list" where
  "groupChanges u =
     (case gu_subject u of Some v \<Rightarrow> [Set_subject v] | None \<Rightarrow> [])
     @ (case gu_owner u of Some v \<Rightarrow> [Set_owner v] | None \<Rightarrow> [])
     @ (case gu_desc u of Some v \<Rightarrow> [Set_description v] | None \<Rightarrow> [])
     @ (case gu_announce u of Some v \<Rightarrow> [Set_announce v] | None \<Rightarrow> [])
     @ (case gu_restrict u of Some v \<Rightarrow> [Set_restrict_mode v] | None \<Rightarrow> [])
     @ (case gu_joinApprovalMode u of Some v \<Rightarrow> [Set_join_approval_mode v] | None \<Rightarrow> [])
     @ (case gu_memberAddMode u of Some v \<Rightarrow> [Set_member_add_mode v] | None \<Rightarrow> [])
     @ (case gu_ephemeralDuration u of Some v \<Rightarrow> [Set_ephemeral_duration v] | None \<Rightarrow> [])"

text \<open>
  One turn of the loop. The chat's name is written by a store call of its own, inside
  the \<open>if\<close> on \<open>subject\<close>, before the group metadata row is looked up.
\<close>

definition groupUpdateItem :: "rules \<Rightarrow> db \<Rightarrow> group_update \<Rightarrow> db" where
  "groupUpdateItem R d u =
     (if gu_id u = [] then logAdd Warn ''Skipping group update with missing id'' None d
      else
        (case Chat_findOne (committed d) (gu_id u) of
           None \<Rightarrow> logAdd Debug ''Chat not found for group update, skipping'' (Some (gu_id u)) d
         | Some chat \<Rightarrow>
             (case (case gu_subject u of
                      None \<Rightarrow> Inr (committed d)
                    | Some v \<Rightarrow> Chat_update R (committed d) (c_id chat) [Set_name (Some v)]) of
                Inl err \<Rightarrow> logAdd Error ''Failed to process group update'' (Some (gu_id u)) d
              | Inr t1 \<Rightarrow>
                  (let changes = groupChanges u
                   in if changes \<noteq> [] then
                        (case GroupMetadata_findOrCreate R t1 (c_id chat) changes of
                           Inl err \<Rightarrow> logAdd Error ''Failed to process group update'' (Some (gu_id u)) (d\<lparr>committed := t1\<rparr>)
                         | Inr (t2, groupMeta, created) \<Rightarrow>
                             (case (if \<not> created then GroupMetadata_update R t2 (g_id groupMeta) changes
                                    else Inr t2) of
                                Inl err \<Rightarrow> logAdd Error ''Failed to process group update'' (Some (gu_id u)) (d\<lparr>committed := t2\<rparr>)
                              | Inr t3 \<Rightarrow> logAdd Info ''Group metadata updated'' (Some (gu_id u)) (d\<lparr>committed := t3\<rparr>)))
                      else d\<lparr>committed := t1\<rparr>))))"

definition handleGroupUpdate :: "rules \<Rightarrow> db \<Rightarrow> group_update list \<Rightarrow> db" where
  "handleGroupUpdate R d updates =
     foldl (groupUpdateItem R) (logAdd Info ''Processing group updates'' None d) updates"

section \<open>History handler (history.handler.ts, HistoryHandler.handleHistorySet)\<close>



















text \<open>The number of rows of \<open>messages\<close> with a given external id, and whether there is one.\<close>

definition countMessageId :: "tables \<Rightarrow> string \<Rightarrow> nat" where
  "countMessageId t mid = length (filter (\<lambda>r. m_message_id r = mid) (messages t))"

definition hasMessage :: "tables \<Rightarrow> string \<Rightarrow> bool" where
  "hasMessage t mid = (Message_findOne t mid \<noteq> None)"

text \<open>The name stored for a contact id; \<open>None\<close> also when there is no such contact.\<close>

definition storedName :: "tables \<Rightarrow> string \<Rightarrow> string option" where
  "storedName t cid = (case Contact_findOne t cid of Some c \<Rightarrow> ct_name c | None \<Rightarrow> None)"

section \<open>Example states and payloads\<close>

definition closeUpdate :: "int \<Rightarrow> connection_update" where
  "closeUpdate code = \<lparr> connection = Some Close, statusCode = Some code, qr = None \<rparr>"

definition openUpdate :: connection_update where
  "openUpdate = \<lparr> connection = Some Open, statusCode = None, qr = None \<rparr>"

text \<open>The service after a first \<open>connect\<close> whose socket has reported \<open>open\<close>.\<close>

definition openedService :: service where
  "openedService = onConnectionUpdate None openUpdate (snd (connect None True newService))"

text \<open>
  A run that ends in a logged-out closure while a reconnect is pending: the open
  socket closes with status 428 (a reconnect is scheduled), the application calls
  \<open>connect\<close> again before the timer runs, and the new socket closes with status 401.
\<close>

definition loggedOutRun :: service where
  "loggedOutRun =
     onConnectionUpdate None (closeUpdate 401)
       (snd (connect None True
         (onConnectionUpdate None (closeUpdate 428) openedService)))"

text \<open>An inbound text message, and a batch of five whose third has an id too long for its column.\<close>

definition textMessage :: "string \<Rightarrow> string \<Rightarrow> string \<Rightarrow> web_message" where
  "textMessage jid mid txt =
     \<lparr> key = Some \<lparr> remoteJid = Some jid, key_id = Some mid, participant = None, fromMe = Some False \<rparr>,
       message = Some [Conversation (Some txt)], pushName = Some ''Ann'',
       messageTimestamp = Some (TsNumber 1700000000) \<rparr>"

definition longId :: string where
  "longId = replicate 256 (CHR ''x'')"

definition batchOfFive :: "web_message list" where
  "batchOfFive =
     [textMessage ''1@s.whatsapp.net'' ''M1'' ''one'',
      textMessage ''1@s.whatsapp.net'' ''M2'' ''two'',
      textMessage ''1@s.whatsapp.net'' longId ''three'',
      textMessage ''1@s.whatsapp.net'' ''M4'' ''four'',
      textMessage ''1@s.whatsapp.net'' ''M5'' ''five'']"

text \<open>
  A store with one chat (archived, pinned, three unread messages, named) and one
  contact named Alice.
\<close>

definition exampleChat :: chat_row where
  "exampleChat = \<lparr> c_id = 1, c_chat_id = ''1@s.whatsapp.net'', c_chat_type = ''private'',
     c_name = Some ''Ann'', c_is_archived = True, c_is_pinned = True, c_is_muted = False,
     c_unread_count = 3, c_last_message_at = None, c_last_message_preview = None \<rparr>"

definition exampleContact :: contact_row where
  "exampleContact = \<lparr> ct_contact_id = ''2@s.whatsapp.net'', ct_name = Some ''Alice'',
     ct_avatar_url = Some ''http://img'', ct_about = None, ct_last_seen_at = None \<rparr>"

definition exampleDb :: db where
  "exampleDb = newDb\<lparr>committed := emptyTables\<lparr>chats := [exampleChat], contacts := [exampleContact],
     next_chat_id := 2\<rparr>\<rparr>"

text \<open>A chat update that carries explicit nulls, and one that carries values and a null name.\<close>

definition nullChatUpdate :: chat_update where
  "nullChatUpdate = \<lparr> cu_id = ''1@s.whatsapp.net'', cu_archive = Null, cu_pin = Null,
     cu_mute = Null, cu_name = Undefined, cu_unreadCount = Null \<rparr>"

definition mixedChatUpdate :: chat_update where
  "mixedChatUpdate = \<lparr> cu_id = ''1@s.whatsapp.net'', cu_archive = Val False, cu_pin = Null,
     cu_mute = Val 1700000000, cu_name = Null, cu_unreadCount = Undefined \<rparr>"

text \<open>Contact updates for one id: a name, a null name, a null name with a notify name.\<close>

definition nameUpdate :: "string \<Rightarrow> string field \<Rightarrow> string field \<Rightarrow> contact_update" where
  "nameUpdate cid n nt = \<lparr> co_id = cid, co_name = n, co_notify = nt, co_imgUrl = Undefined,
     co_status = Undefined \<rparr>"

text \<open>A group update that carries a subject.\<close>

definition subjectUpdate :: "string \<Rightarrow> string \<Rightarrow> group_update" where
  "subjectUpdate gid s = \<lparr> gu_id = gid, gu_subject = Some s, gu_owner = None, gu_desc = None,
     gu_announce = Some True, gu_restrict = None, gu_joinApprovalMode = None,
     gu_memberAddMode = None, gu_ephemeralDuration = None \<rparr>"


section \<open>Properties of the classification\<close>

lemma classifyKeys_first:
  "\<forall>k\<in>set pre. keyType k = None \<Longrightarrow> keyType k0 = Some t \<Longrightarrow> classifyKeys (pre @ k0 # post) = t"
  by (induction pre) simp_all

lemma classifyKeys_none:
  "\<forall>k\<in>set ks. keyType k = None \<Longrightarrow> classifyKeys ks = ''unknown''"
  by (induction ks) simp_all

text \<open>
  C2, as amended. The classification follows the order of the keys in the payload, not
  a fixed order of kinds: when the keys of the payload are \<open>pre @ k0 # post\<close>, no key
  of \<open>pre\<close> has a \<open>case\<close> in the switch and \<open>k0\<close> has one, the result is the type of
  \<open>k0\<close>, whatever \<open>post\<close> holds. A payload none of whose keys has a \<open>case\<close>, and a
  missing payload, are \<open>unknown\<close>.
\<close>

theorem c2_first_payload_key_wins:
  "(objectKeys content = pre @ k0 # post \<and> (\<forall>k\<in>set pre. keyType k = None) \<and> keyType k0 = Some t
      \<longrightarrow> resolveMessageType (Some content) = t)
   \<and> ((\<forall>k\<in>set (objectKeys content). keyType k = None) \<longrightarrow> resolveMessageType (Some content) = ''unknown'')
   \<and> resolveMessageType None = ''unknown''"
  by (simp add: resolveMessageType_def classifyKeys_first classifyKeys_none)

theorem c2_first_payload_key_wins_witness:
  "resolveMessageType (Some [OtherField ''messageContextInfo'', VideoMessage None None, Conversation (Some ''hi'')]) = ''video''
   \<and> resolveMessageType (Some [OtherField ''messageContextInfo'']) = ''unknown''"
proof -
  have k: "objectKeys [OtherField ''messageContextInfo'', VideoMessage None None, Conversation (Some ''hi'')]
        = [''messageContextInfo''] @ ''videoMessage'' # [''conversation'']"
    by (simp add: objectKeys_def)
  have p: "\<forall>k\<in>set [''messageContextInfo'']. keyType k = None" by (simp add: keyType_def)
  have t: "keyType ''videoMessage'' = Some ''video''" by (simp add: keyType_def)
  have q: "\<forall>k\<in>set (objectKeys [OtherField ''messageContextInfo'']). keyType k = None"
    by (simp add: objectKeys_def keyType_def)
  from c2_first_payload_key_wins [of "[OtherField ''messageContextInfo'', VideoMessage None None, Conversation (Some ''hi'')]"
      "[''messageContextInfo'']" "''videoMessage''" "[''conversation'']" "''video''"] k p t
  have a: "resolveMessageType (Some [OtherField ''messageContextInfo'', VideoMessage None None, Conversation (Some ''hi'')]) = ''video''"
    by blast
  from c2_first_payload_key_wins [of "[OtherField ''messageContextInfo'']" "[]" "[]" "[]" "[]"] q
  have b: "resolveMessageType (Some [OtherField ''messageContextInfo''])  = ''unknown''" by blast
  from a b show ?thesis by simp
qed

text \<open>
  C2 as stated fails: a payload whose keys are \<open>conversation\<close>, then \<open>imageMessage\<close>
  classifies as \<open>chat\<close>, not as \<open>image\<close>, and the same two fields in the other order
  classify as \<open>image\<close>.
\<close>

theorem c2_payload_order_counterexample:
  "resolveMessageType (Some [Conversation (Some ''hi''), ImageMessage None None]) = ''chat''
   \<and> resolveMessageType (Some [Conversation (Some ''hi''), ImageMessage None None]) \<noteq> ''image''
   \<and> resolveMessageType (Some [ImageMessage None None, Conversation (Some ''hi'')]) = ''image''"
  by (simp add: resolveMessageType_def objectKeys_def keyType_def)

section \<open>Properties of the connection service\<close>

lemmas service_defs = connect_def connect_enter_def connect_resume_def applyHandlers_def slog_add_def
  onConnectionUpdate_def fireTimer_def newService_def closeUpdate_def openUpdate_def Let_def
  maxReconnectAttempts_def backoffDelay_def loggedOut_def truthy_def openedService_def

lemma close_step_below:
  assumes "connection u = Some Close" "statusCode u \<noteq> Some loggedOut" "reconnectAttempts s < 10"
  shows "reconnectAttempts (onConnectionUpdate opts u s) = Suc (reconnectAttempts s)"
    and "timers (onConnectionUpdate opts u s) = timers s @ [(min (1000 * 2 ^ Suc (reconnectAttempts s)) 60000, opts)]"
    and "sock (onConnectionUpdate opts u s) = sock s"
  using assms
  by (simp_all add: onConnectionUpdate_def Let_def slog_add_def maxReconnectAttempts_def backoffDelay_def)

lemma close_step_exhausted:
  assumes "connection u = Some Close" "statusCode u \<noteq> Some loggedOut" "10 \<le> reconnectAttempts s"
  shows "reconnectAttempts (onConnectionUpdate opts u s) = reconnectAttempts s"
    and "timers (onConnectionUpdate opts u s) = timers s"
    and "sock (onConnectionUpdate opts u s) = None"
  using assms
  by (simp_all add: onConnectionUpdate_def Let_def slog_add_def maxReconnectAttempts_def)

lemma open_step:
  assumes "connection u = Some Open"
  shows "reconnectAttempts (onConnectionUpdate opts u s) = 0"
    and "timers (onConnectionUpdate opts u s) = timers s"
  using assms
  by (simp_all add: onConnectionUpdate_def Let_def slog_add_def)

text \<open>
  Closures that follow one another with no \<open>open\<close> in between: the counter stops at
  ten, and the delays scheduled are those of the attempts that were still allowed.
\<close>

lemma closes_iterated:
  assumes u: "connection u = Some Close" "statusCode u \<noteq> Some loggedOut"
  shows "reconnectAttempts s \<le> 10 \<Longrightarrow>
     reconnectAttempts (((onConnectionUpdate opts u) ^^ k) s) = min (reconnectAttempts s + k) 10
     \<and> timers (((onConnectionUpdate opts u) ^^ k) s)
         = timers s @ map (\<lambda>n. (min (1000 * 2 ^ n) 60000, opts)) [Suc (reconnectAttempts s) ..< Suc (min (reconnectAttempts s + k) 10)]"
proof (induction k)
  case 0
  then show ?case by simp
next
  case (Suc k)
  let ?t = "((onConnectionUpdate opts u) ^^ k) s"
  have a: "reconnectAttempts ?t = min (reconnectAttempts s + k) 10"
    and b: "timers ?t = timers s @ map (\<lambda>n. (min (1000 * 2 ^ n) 60000, opts)) [Suc (reconnectAttempts s) ..< Suc (min (reconnectAttempts s + k) 10)]"
    using Suc by simp_all
  show ?case
  proof (cases "reconnectAttempts s + k < 10")
    case True
    then have lt: "reconnectAttempts ?t < 10" using a by simp
    show ?thesis
      using True a b close_step_below(1,2) [OF u lt, of opts]
      by simp
  next
    case False
    then have ge: "10 \<le> reconnectAttempts ?t" using a by simp
    show ?thesis
      using False a b close_step_exhausted(1,2) [OF u ge, of opts]
      by simp
  qed
qed

text \<open>
  C3. A closure that is not the logged-out one, with the counter below 10, raises the
  counter by one to \<open>n\<close> and schedules one reconnect after \<open>min (1000 * 2 ^ n) 60000\<close>
  milliseconds, keeping the socket; with the counter at 10 or more it schedules nothing
  and drops the socket. An \<open>open\<close> resets the counter to zero. From a counter of zero,
  \<open>k\<close> closures with no \<open>open\<close> between them leave the counter at \<open>min k 10\<close> and have
  scheduled exactly the delays of the attempts \<open>1\<close> to \<open>min k 10\<close>.
\<close>

theorem c3_backoff_schedule:
  "(connection u = Some Close \<and> statusCode u \<noteq> Some loggedOut \<and> reconnectAttempts s < 10 \<longrightarrow>
      reconnectAttempts (onConnectionUpdate opts u s) = reconnectAttempts s + 1
      \<and> timers (onConnectionUpdate opts u s)
          = timers s @ [(min (1000 * 2 ^ (reconnectAttempts s + 1)) 60000, opts)]
      \<and> sock (onConnectionUpdate opts u s) = sock s)
   \<and> (connection u = Some Close \<and> statusCode u \<noteq> Some loggedOut \<and> 10 \<le> reconnectAttempts s \<longrightarrow>
      timers (onConnectionUpdate opts u s) = timers s
      \<and> sock (onConnectionUpdate opts u s) = None
      \<and> reconnectAttempts (onConnectionUpdate opts u s) = reconnectAttempts s)
   \<and> (connection u = Some Open \<longrightarrow> reconnectAttempts (onConnectionUpdate opts u s) = 0)
   \<and> (connection u = Some Close \<and> statusCode u \<noteq> Some loggedOut \<and> reconnectAttempts s = 0 \<longrightarrow>
      reconnectAttempts (((onConnectionUpdate opts u) ^^ k) s) = min k 10
      \<and> timers (((onConnectionUpdate opts u) ^^ k) s)
          = timers s @ map (\<lambda>n. (min (1000 * 2 ^ n) 60000, opts)) [1 ..< Suc (min k 10)])"
proof (intro conjI impI)
  assume h: "connection u = Some Close \<and> statusCode u \<noteq> Some loggedOut \<and> reconnectAttempts s = 0"
  then have le: "reconnectAttempts s \<le> 10" by simp
  from closes_iterated [where u=u and s=s and opts=opts and k=k] h le
  show "reconnectAttempts (((onConnectionUpdate opts u) ^^ k) s) = min k 10" by simp
  from closes_iterated [where u=u and s=s and opts=opts and k=k] h le
  show "timers (((onConnectionUpdate opts u) ^^ k) s)
          = timers s @ map (\<lambda>n. (min (1000 * 2 ^ n) 60000, opts)) [1 ..< Suc (min k 10)]" by simp
qed (simp_all add: close_step_below close_step_exhausted open_step)

theorem c3_backoff_schedule_witness:
  "reconnectAttempts (onConnectionUpdate None (closeUpdate 428) openedService) = 1
   \<and> timers (onConnectionUpdate None (closeUpdate 428) openedService) = [(2000, None)]
   \<and> map fst (timers (((onConnectionUpdate None (closeUpdate 428)) ^^ 12) openedService))
       = [2000, 4000, 8000, 16000, 32000, 60000, 60000, 60000, 60000, 60000]
   \<and> sock (((onConnectionUpdate None (closeUpdate 428)) ^^ 11) openedService) = None
   \<and> reconnectAttempts (onConnectionUpdate None openUpdate (((onConnectionUpdate None (closeUpdate 428)) ^^ 3) openedService)) = 0"
proof -
  let ?s = "openedService"
  let ?u = "closeUpdate 428"
  have u: "connection ?u = Some Close" "statusCode ?u \<noteq> Some loggedOut"
    by (simp_all add: closeUpdate_def loggedOut_def)
  have s0: "reconnectAttempts ?s = 0" "timers ?s = []"
    by (simp_all add: service_defs)
  have ten: "reconnectAttempts (((onConnectionUpdate None ?u) ^^ 10) ?s) = 10"
    using c3_backoff_schedule [of ?u ?s None 10] u s0 by simp
  have a: "reconnectAttempts (onConnectionUpdate None ?u ?s) = 1"
    "timers (onConnectionUpdate None ?u ?s) = [(2000, None)]"
    using c3_backoff_schedule [of ?u ?s None 0] u s0 by simp_all
  have b: "timers (((onConnectionUpdate None ?u) ^^ 12) ?s)
      = map (\<lambda>n. (min (1000 * 2 ^ n) 60000, None)) [1 ..< 11]"
    using c3_backoff_schedule [of ?u ?s None 12] u s0 by simp
  have up: "map fst (map (\<lambda>n. (min (1000 * 2 ^ n) 60000 :: nat, None :: connect_options option)) [1 ..< 11])
      = [2000, 4000, 8000, 16000, 32000, 60000, 60000, 60000, 60000, 60000]"
    by (simp add: upt_rec)
  have c: "sock (onConnectionUpdate None ?u (((onConnectionUpdate None ?u) ^^ 10) ?s)) = None"
    using c3_backoff_schedule [of ?u "((onConnectionUpdate None ?u) ^^ 10) ?s" None 0] u ten by simp
  have e: "((onConnectionUpdate None ?u) ^^ 11) ?s = onConnectionUpdate None ?u (((onConnectionUpdate None ?u) ^^ 10) ?s)"
    by (simp add: eval_nat_numeral)
  have o: "connection openUpdate = Some Open" by (simp add: openUpdate_def)
  have r: "reconnectAttempts (onConnectionUpdate None openUpdate (((onConnectionUpdate None ?u) ^^ 3) ?s)) = 0"
    using c3_backoff_schedule [of openUpdate "((onConnectionUpdate None ?u) ^^ 3) ?s" None 0] o by simp
  show ?thesis
    using a c e up r unfolding b [symmetric] by simp
qed

text \<open>
  C4, as amended. A closure with the logged-out status schedules no reconnect,
  whatever the counter is: the pending timers are the same as before, the socket is
  dropped, \<open>isConnecting\<close> is cleared and the counter is untouched. The timers that were
  pending are not cancelled: when one of them runs after the closure it calls
  \<open>connect\<close>, which (its setup succeeding) creates a new socket.
\<close>

theorem c4_logged_out_close:
  "connection u = Some Close \<and> statusCode u = Some loggedOut \<longrightarrow>
     timers (onConnectionUpdate opts u s) = timers s
     \<and> sock (onConnectionUpdate opts u s) = None
     \<and> isConnecting (onConnectionUpdate opts u s) = False
     \<and> reconnectAttempts (onConnectionUpdate opts u s) = reconnectAttempts s
     \<and> (\<forall>i < length (timers s).
          sock (fireTimer i True (onConnectionUpdate opts u s)) = Some (nextSock s))"
  by (simp add: onConnectionUpdate_def fireTimer_def connect_def connect_enter_def
      connect_resume_def applyHandlers_def slog_add_def Let_def)

theorem c4_logged_out_close_witness:
  "timers (onConnectionUpdate None (closeUpdate 401) (onConnectionUpdate None (closeUpdate 428) openedService))
     = [(2000, None)]
   \<and> sock (onConnectionUpdate None (closeUpdate 401) (onConnectionUpdate None (closeUpdate 428) openedService)) = None
   \<and> \<not> isConnecting (onConnectionUpdate None (closeUpdate 401) (onConnectionUpdate None (closeUpdate 428) openedService))
   \<and> reconnectAttempts (onConnectionUpdate None (closeUpdate 401) (onConnectionUpdate None (closeUpdate 428) openedService)) = 1
   \<and> sock (fireTimer 0 True (onConnectionUpdate None (closeUpdate 401) (onConnectionUpdate None (closeUpdate 428) openedService))) = Some 1"
proof -
  let ?s = "onConnectionUpdate None (closeUpdate 428) openedService"
  have u: "connection (closeUpdate 401) = Some Close \<and> statusCode (closeUpdate 401) = Some loggedOut"
    by (simp add: closeUpdate_def loggedOut_def)
  have s: "timers ?s = [(2000, None)]" "reconnectAttempts ?s = 1" "nextSock ?s = 1"
    by (simp_all add: service_defs)
  show ?thesis
    using c4_logged_out_close [of "closeUpdate 401" None ?s] u s by simp
qed

text \<open>
  C4 as stated fails in its second half: in \<open>loggedOutRun\<close> the reconnect scheduled
  before the logged-out closure is still pending after it, and when it runs a third
  socket is created.
\<close>

theorem c4_pending_reconnect_counterexample:
  "timers loggedOutRun = [(2000, None)]
   \<and> sock loggedOutRun = None
   \<and> sock (fireTimer 0 True loggedOutRun) = Some 2
   \<and> made (fireTimer 0 True loggedOutRun) = [(0, None), (1, None), (2, None)]"
  by (simp add: loggedOutRun_def service_defs)

text \<open>
  C8, as amended. A call of \<open>connect\<close> made while \<open>isConnecting\<close> is set starts no second
  attempt: it changes nothing but the log. It returns the stored socket when there is
  one, and throws \<open>Connection in progress, socket not yet available\<close> when there is none.
\<close>

theorem c8_connect_while_connecting:
  "isConnecting s \<longrightarrow>
     fst (connect opts ok s)
       = (case sock s of
            Some k \<Rightarrow> Inr k
          | None \<Rightarrow> Inl ''Connection in progress, socket not yet available'')
     \<and> snd (connect opts ok s) = s\<lparr>slog := slog s @ [Log Warn ''Connection attempt already in progress'' None]\<rparr>"
  by (simp add: connect_def connect_enter_def slog_add_def Let_def split: option.split)

theorem c8_connect_while_connecting_witness:
  "isConnecting (snd (connect None True newService))
   \<and> fst (connect None True (snd (connect None True newService))) = Inr 0
   \<and> nextSock (snd (connect None True (snd (connect None True newService)))) = 1"
proof -
  have a: "isConnecting (snd (connect None True newService))"
    and b: "sock (snd (connect None True newService)) = Some 0"
    and c: "nextSock (snd (connect None True newService)) = 1"
    by (simp_all add: service_defs)
  show ?thesis
    using c8_connect_while_connecting [of "snd (connect None True newService)" None True] a b c
    by simp
qed

text \<open>
  C8 as stated fails: a first call of \<open>connect\<close> that is still waiting for its setup has
  set \<open>isConnecting\<close> and stored no socket yet, and a second call made then throws
  instead of returning a handle.
\<close>

theorem c8_no_socket_yet_counterexample:
  "isConnecting (snd (connect_enter newService))
   \<and> sock (snd (connect_enter newService)) = None
   \<and> fst (connect None True (snd (connect_enter newService)))
       = Inl ''Connection in progress, socket not yet available''"
  by (simp add: service_defs)

section \<open>Properties of the store operations and of the message handler\<close>

lemma find_None_iff_filter: "(find P xs = None) = (filter P xs = [])"
  by (induction xs) auto

lemma find_snoc: "find P (xs @ [x]) = (case find P xs of Some y \<Rightarrow> Some y | None \<Rightarrow> if P x then Some x else None)"
  by (induction xs) auto

lemma Chat_findOrCreate_frame:
  "Chat_findOrCreate R t jid ty n = Inr (t', c, b) \<Longrightarrow>
     messages t' = messages t \<and> contacts t' = contacts t \<and> groups t' = groups t
     \<and> next_message_id t' = next_message_id t \<and> Chat_findOne t' jid = Some c"
  by (auto simp: Chat_findOrCreate_def Chat_findOne_def Let_def find_snoc
      split: option.splits if_splits)

lemma Contact_findOrCreate_frame:
  "Contact_findOrCreate R t cid n a ab = Inr (t', c, b) \<Longrightarrow>
     messages t' = messages t \<and> chats t' = chats t \<and> groups t' = groups t
     \<and> next_message_id t' = next_message_id t \<and> Contact_findOne t' cid = Some c"
  by (auto simp: Contact_findOrCreate_def Contact_findOne_def Let_def find_snoc
      split: option.splits if_splits)

lemma findOrCreateSender_frame:
  "findOrCreateSender R t sid n = Inr t' \<Longrightarrow>
     messages t' = messages t \<and> chats t' = chats t \<and> groups t' = groups t
     \<and> next_message_id t' = next_message_id t"
  by (auto simp: findOrCreateSender_def split: if_splits sum.splits dest: Contact_findOrCreate_frame)

lemma Chat_update_frame:
  "Chat_update R t pk ch = Inr t' \<Longrightarrow>
     messages t' = messages t \<and> contacts t' = contacts t \<and> groups t' = groups t"
  by (auto simp: Chat_update_def split: if_splits)

lemma Message_findOrCreate_result:
  "Message_findOrCreate R t mid dflt = Inr (t', r, b) \<Longrightarrow>
     (\<not> b \<and> t' = t \<and> Message_findOne t mid = Some r)
     \<or> (b \<and> Message_findOne t mid = None \<and> messages t' = messages t @ [r]
         \<and> r = dflt\<lparr>m_id := next_message_id t\<rparr> \<and> chats t' = chats t \<and> contacts t' = contacts t)"
  by (auto simp: Message_findOrCreate_def Let_def split: option.splits if_splits)


lemma Chat_findOrCreate_rejected:
  assumes "Chat_findOrCreate R t jid ty n = Inl e"
  shows "\<exists>c. c_chat_id c = jid \<and> c_name c = n \<and> rej_chat R c"
proof -
  let ?r = "\<lparr> c_id = next_chat_id t, c_chat_id = jid, c_chat_type = ty, c_name = n,
              c_is_archived = False, c_is_pinned = False, c_is_muted = False,
              c_unread_count = 0, c_last_message_at = None, c_last_message_preview = None \<rparr>"
  from assms have "rej_chat R ?r"
    by (auto simp: Chat_findOrCreate_def Let_def split: option.splits if_splits)
  then show ?thesis by (intro exI [of _ ?r]) simp
qed

lemma findOrCreateSender_rejected:
  assumes "findOrCreateSender R t sid n = Inl e"
  shows "\<exists>c. ct_contact_id c = sid \<and> ct_name c = n \<and> rej_contact R c"
proof -
  let ?r = "\<lparr> ct_contact_id = sid, ct_name = n, ct_avatar_url = None, ct_about = None,
              ct_last_seen_at = None \<rparr>"
  from assms have "rej_contact R ?r"
    by (auto simp: findOrCreateSender_def Contact_findOrCreate_def Let_def
        split: option.splits if_splits sum.splits)
  then show ?thesis by (intro exI [of _ ?r]) simp
qed

lemma findOrCreateSender_found:
  "findOrCreateSender R t sid n = Inr t' \<Longrightarrow> sid \<noteq> [] \<Longrightarrow> Contact_findOne t' sid \<noteq> None"
  by (auto simp: findOrCreateSender_def split: if_splits sum.splits dest: Contact_findOrCreate_frame)

lemma Message_findOrCreate_rejected:
  "Message_findOrCreate R t mid dflt = Inl e \<Longrightarrow> rej_message R (dflt\<lparr>m_id := next_message_id t\<rparr>)"
  by (auto simp: Message_findOrCreate_def Let_def split: option.splits if_splits)

lemma Message_findOrCreate_created:
  "Message_findOrCreate R t mid dflt = Inr (t', r, True) \<Longrightarrow>
     Message_findOne t mid = None \<and> messages t' = messages t @ [r] \<and> r = dflt\<lparr>m_id := next_message_id t\<rparr>
     \<and> chats t' = chats t \<and> contacts t' = contacts t \<and> \<not> rej_message R r"
  by (auto simp: Message_findOrCreate_def Let_def split: option.splits if_splits)

lemma Message_findOrCreate_existing:
  "Message_findOrCreate R t mid dflt = Inr (t', r, False) \<Longrightarrow> t' = t \<and> Message_findOne t mid = Some r"
  by (auto simp: Message_findOrCreate_def Let_def split: option.splits if_splits)

lemma chatAssign_keeps_ids: "c_chat_id (foldl chatAssign r ch) = c_chat_id r \<and> c_id (foldl chatAssign r ch) = c_id r"
proof (induction ch arbitrary: r)
  case Nil
  show ?case by simp
next
  case (Cons a ch)
  have "c_chat_id (chatAssign r a) = c_chat_id r \<and> c_id (chatAssign r a) = c_id r"
    by (cases a) simp_all
  with Cons [of "chatAssign r a"] show ?case by simp
qed

lemma find_map_same:
  "(\<And>x. P (f x) = P x) \<Longrightarrow> find P (map f xs) = map_option f (find P xs)"
  by (induction xs) auto

lemma Chat_update_findOne:
  "Chat_update R t pk ch = Inr t' \<Longrightarrow>
     Chat_findOne t' jid = map_option (\<lambda>r. if c_id r = pk then foldl chatAssign r ch else r) (Chat_findOne t jid)"
proof -
  assume u: "Chat_update R t pk ch = Inr t'"
  then have c: "chats t' = map (\<lambda>r. if c_id r = pk then foldl chatAssign r ch else r) (chats t)"
    by (auto simp: Chat_update_def split: if_splits)
  show ?thesis
    unfolding Chat_findOne_def c
    by (rule find_map_same) (simp add: chatAssign_keeps_ids)
qed

lemma senderIdOf_nonempty: "remoteJid k = Some jid \<Longrightarrow> jid \<noteq> [] \<Longrightarrow> senderIdOf k \<noteq> []"
  by (auto simp: senderIdOf_def js_or_def truthy_def split: option.splits)

lemma messageDefaults_id [simp]: "m_message_id (messageDefaults now msg k mid pk q) = mid"
  by (simp add: messageDefaults_def Let_def)

lemma messageDefaults_sender [simp]:
  "m_sender_id (messageDefaults now msg k mid pk q) = senderIdOf k"
  "m_sender_name (messageDefaults now msg k mid pk q) = or_null (pushName msg)"
  by (simp_all add: messageDefaults_def Let_def)

text \<open>The five ways a turn of the loop can end once the key fields are there.\<close>

lemma saveMessage_cases:
  assumes j: "remoteJid k = Some jid" "jid \<noteq> []"
  shows
   "(resolveMessageType (message msg) = ''protocol''
       \<and> saveMessage R now d msg jid mid k = logAdd Debug ''Skipping protocol message'' (Some mid) d)
    \<or> (resolveMessageType (message msg) \<noteq> ''protocol''
       \<and> (\<exists>t. saveMessage R now d msg jid mid k = failedMessage msg t d
               \<and> messages t = messages (committed d))
       \<and> ((\<exists>c. c_chat_id c = jid \<and> c_name c = None \<and> rej_chat R c)
           \<or> (\<exists>c. ct_contact_id c = senderIdOf k \<and> ct_name c = or_null (pushName msg) \<and> rej_contact R c)
           \<or> (\<exists>r. m_message_id r = mid \<and> m_sender_id r = senderIdOf k
                   \<and> m_sender_name r = or_null (pushName msg) \<and> rej_message R r)))
    \<or> (resolveMessageType (message msg) \<noteq> ''protocol''
       \<and> hasMessage (committed d) mid
       \<and> (\<exists>t. saveMessage R now d msg jid mid k
                 = (logAdd Debug ''Message already exists, skipped'' (Some mid) d)\<lparr>committed := t\<rparr>
               \<and> messages t = messages (committed d)
               \<and> (Chat_findOne (committed d) jid \<noteq> None \<and> Contact_findOne (committed d) (senderIdOf k) \<noteq> None
                    \<longrightarrow> t = committed d)))
    \<or> (resolveMessageType (message msg) \<noteq> ''protocol''
       \<and> \<not> hasMessage (committed d) mid
       \<and> (\<exists>t r. (saveMessage R now d msg jid mid k = failedMessage msg t (logAdd Info ''Message saved'' (Some mid) d)
                   \<or> saveMessage R now d msg jid mid k = (logAdd Info ''Message saved'' (Some mid) d)\<lparr>committed := t\<rparr>)
                 \<and> messages t = messages (committed d) @ [r] \<and> m_message_id r = mid \<and> \<not> rej_message R r
                 \<and> Chat_findOne t jid \<noteq> None \<and> Contact_findOne t (senderIdOf k) \<noteq> None))"
proof (cases "resolveMessageType (message msg) = ''protocol''")
  case True
  then show ?thesis by (simp add: saveMessage_def)
next
  case np: False
  show ?thesis
  proof (cases "Chat_findOrCreate R (committed d) jid (chatTypeFromJid jid) None")
    case (Inl e)
    from Chat_findOrCreate_rejected [OF Inl] np Inl show ?thesis
      by (auto simp add: saveMessage_def)
  next
    case (Inr x)
    then obtain t1 chat cc where c: "Chat_findOrCreate R (committed d) jid (chatTypeFromJid jid) None = Inr (t1, chat, cc)"
      by (cases x) auto
    from Chat_findOrCreate_frame [OF c]
    have m1: "messages t1 = messages (committed d)" and c1: "Chat_findOne t1 jid = Some chat"
      and k1: "contacts t1 = contacts (committed d)" by simp_all
    have same1: "Chat_findOne (committed d) jid \<noteq> None \<Longrightarrow> t1 = committed d"
      using c by (auto simp: Chat_findOrCreate_def split: option.splits)
    show ?thesis
    proof (cases "findOrCreateSender R t1 (senderIdOf k) (or_null (pushName msg))")
      case (Inl e)
      from findOrCreateSender_rejected [OF Inl] np c Inl m1 show ?thesis
        by (auto simp add: saveMessage_def)
    next
      case s: (Inr t2)
      from findOrCreateSender_frame [OF s] m1 c1
      have m2: "messages t2 = messages (committed d)" and c2: "Chat_findOne t2 jid = Some chat"
        by (simp_all add: Chat_findOne_def)
      from findOrCreateSender_found [OF s senderIdOf_nonempty [OF j]]
      have k2: "Contact_findOne t2 (senderIdOf k) \<noteq> None" .
      have same2: "Contact_findOne t1 (senderIdOf k) \<noteq> None \<Longrightarrow> t2 = t1"
        using s by (auto simp: findOrCreateSender_def Contact_findOrCreate_def split: option.splits if_splits)
      have hm: "hasMessage t2 mid = hasMessage (committed d) mid"
        using m2 by (simp add: hasMessage_def Message_findOne_def)
      let ?dflt = "messageDefaults now msg k mid (c_id chat) (quotedMessageDbId t2 (message msg))"
      show ?thesis
      proof (cases "Message_findOrCreate R t2 mid ?dflt")
        case (Inl e)
        from Message_findOrCreate_rejected [OF Inl]
        have "\<exists>r. m_message_id r = mid \<and> m_sender_id r = senderIdOf k
                   \<and> m_sender_name r = or_null (pushName msg) \<and> rej_message R r"
          by (intro exI [of _ "?dflt\<lparr>m_id := next_message_id t2\<rparr>"]) simp
        with np c s Inl m2 show ?thesis
          by (auto simp add: saveMessage_def)
      next
        case (Inr y)
        then obtain t3 saved cr where f: "Message_findOrCreate R t2 mid ?dflt = Inr (t3, saved, cr)"
          by (cases y) auto
        show ?thesis
        proof (cases cr)
          case False
          from f False have f': "Message_findOrCreate R t2 mid ?dflt = Inr (t3, saved, False)" by simp
          from Message_findOrCreate_existing [OF f']
          have e: "t3 = t2" "Message_findOne t2 mid = Some saved" by simp_all
          have h: "hasMessage (committed d) mid" using e hm by (simp add: hasMessage_def)
          have r: "saveMessage R now d msg jid mid k
                 = (logAdd Debug ''Message already exists, skipped'' (Some mid) d)\<lparr>committed := t2\<rparr>"
            using np c s f False e by (simp add: saveMessage_def)
          have "Chat_findOne (committed d) jid \<noteq> None \<and> Contact_findOne (committed d) (senderIdOf k) \<noteq> None
                    \<longrightarrow> t2 = committed d"
            using same1 same2 by (auto simp: Contact_findOne_def)
          with np h r m2 show ?thesis by blast
        next
          case True
          from f True have f': "Message_findOrCreate R t2 mid ?dflt = Inr (t3, saved, True)" by simp
          note cr = Message_findOrCreate_created [OF f']
          have n: "Message_findOne t2 mid = None" using cr by (elim conjE)
          have m3: "messages t3 = messages t2 @ [saved]" using cr by (elim conjE)
          have sv: "saved = ?dflt\<lparr>m_id := next_message_id t2\<rparr>" using cr by (elim conjE)
          have c3: "chats t3 = chats t2" using cr by (elim conjE)
          have k3: "contacts t3 = contacts t2" using cr by (elim conjE)
          have acc: "\<not> rej_message R saved" using cr by (elim conjE)
          have nh: "\<not> hasMessage (committed d) mid" using n hm by (simp add: hasMessage_def)
          have sid: "m_message_id saved = mid" using sv by simp
          have c3': "Chat_findOne t3 jid \<noteq> None" using c2 c3 by (simp add: Chat_findOne_def)
          have k3': "Contact_findOne t3 (senderIdOf k) \<noteq> None" using k2 k3 by (simp add: Contact_findOne_def)
          show ?thesis
          proof (cases "Chat_update R t3 (c_id chat) (chatUpdateFor now msg k jid chat)")
            case (Inl e)
            have r: "saveMessage R now d msg jid mid k
                   = failedMessage msg t3 (logAdd Info ''Message saved'' (Some mid) d)"
              using np c s f True Inl by (simp add: saveMessage_def Let_def)
            from np nh r m3 m2 sid acc c3' k3' show ?thesis by auto
          next
            case (Inr t4)
            have r: "saveMessage R now d msg jid mid k
                   = (logAdd Info ''Message saved'' (Some mid) d)\<lparr>committed := t4\<rparr>"
              using np c s f True Inr by (simp add: saveMessage_def Let_def)
            from Chat_update_frame [OF Inr] have m4: "messages t4 = messages t3" "contacts t4 = contacts t3"
              by simp_all
            have c4: "Chat_findOne t4 jid \<noteq> None"
              using Chat_update_findOne [OF Inr, of jid] c3' by simp
            have k4: "Contact_findOne t4 (senderIdOf k) \<noteq> None" using k3' m4 by (simp add: Contact_findOne_def)
            from np nh r m3 m2 m4 sid acc c4 k4 show ?thesis by auto
          qed
        qed
      qed
    qed
  qed
qed


lemma hasMessage_iff: "hasMessage t mid = (\<exists>r\<in>set (messages t). m_message_id r = mid)"
  by (auto simp: hasMessage_def Message_findOne_def find_None_iff)

lemma failedMessage_simps [simp]:
  "committed (failedMessage msg t d) = t"
  "open_tx (failedMessage msg t d) = open_tx d"
  "logs (failedMessage msg t d)
     = logs d @ [Log Error ''Failed to process message'' (case key msg of None \<Rightarrow> None | Some k \<Rightarrow> key_id k)]"
  by (simp_all add: failedMessage_def logAdd_def)

lemma logAdd_simps [simp]:
  "committed (logAdd l m c d) = committed d"
  "open_tx (logAdd l m c d) = open_tx d"
  "logs (logAdd l m c d) = logs d @ [Log l m c]"
  by (simp_all add: logAdd_def)

lemma upsertMessage_valid:
  "key msg = Some k \<Longrightarrow> remoteJid k = Some jid \<Longrightarrow> key_id k = Some mid \<Longrightarrow> jid \<noteq> [] \<Longrightarrow> mid \<noteq> []
     \<Longrightarrow> upsertMessage R now d msg = saveMessage R now d msg jid mid k"
  by (simp add: upsertMessage_def)

text \<open>A turn of the loop either skips the message with a warning or is \<open>saveMessage\<close>.\<close>

lemma upsertMessage_shape:
  "upsertMessage R now d msg = logAdd Warn ''Skipping message with missing key fields'' None d
   \<or> (\<exists>k jid mid. key msg = Some k \<and> remoteJid k = Some jid \<and> key_id k = Some mid \<and> jid \<noteq> [] \<and> mid \<noteq> []
         \<and> upsertMessage R now d msg = saveMessage R now d msg jid mid k)"
  by (auto simp: upsertMessage_def split: option.splits)

lemma saveMessage_messages:
  assumes j: "remoteJid k = Some jid" "jid \<noteq> []"
  shows "messages (committed (saveMessage R now d msg jid mid k)) = messages (committed d)
   \<or> (\<not> hasMessage (committed d) mid
       \<and> (\<exists>r. m_message_id r = mid \<and> \<not> rej_message R r
              \<and> messages (committed (saveMessage R now d msg jid mid k)) = messages (committed d) @ [r]))"
  using saveMessage_cases [OF j, of msg R now d mid]
  by (elim disjE conjE exE) auto

lemma saveMessage_logs:
  assumes j: "remoteJid k = Some jid" "jid \<noteq> []"
  shows "\<exists>es. logs (saveMessage R now d msg jid mid k) = logs d @ es"
  using saveMessage_cases [OF j, of msg R now d mid]
  by (elim disjE conjE exE) auto


lemma upsertMessage_messages:
  "messages (committed (upsertMessage R now d msg)) = messages (committed d)
   \<or> (\<exists>r. \<not> hasMessage (committed d) (m_message_id r) \<and> \<not> rej_message R r
          \<and> messages (committed (upsertMessage R now d msg)) = messages (committed d) @ [r])"
  using upsertMessage_shape [of R now d msg]
proof (elim disjE exE conjE)
  assume "upsertMessage R now d msg = logAdd Warn ''Skipping message with missing key fields'' None d"
  then show ?thesis by simp
next
  fix k jid mid
  assume j: "remoteJid k = Some jid" "jid \<noteq> []"
    and e: "upsertMessage R now d msg = saveMessage R now d msg jid mid k"
  from saveMessage_messages [OF j, of R now d msg mid] show ?thesis
    unfolding e by auto
qed

lemma upsertMessage_logs: "\<exists>es. logs (upsertMessage R now d msg) = logs d @ es"
  using upsertMessage_shape [of R now d msg] saveMessage_logs [of _ _ R now d msg]
  by (elim disjE exE conjE) auto


lemma upsertMessage_keeps:
  "hasMessage (committed d) mid \<Longrightarrow> hasMessage (committed (upsertMessage R now d msg)) mid"
  using upsertMessage_messages [of R now d msg] by (auto simp: hasMessage_iff)

lemma upsertMessage_keeps_log:
  "e \<in> set (logs d) \<Longrightarrow> e \<in> set (logs (upsertMessage R now d msg))"
  using upsertMessage_logs [of R now d msg] by auto

lemma foldl_upsert_keeps:
  "hasMessage (committed d) mid \<Longrightarrow> hasMessage (committed (foldl (upsertMessage R now) d msgs)) mid"
  by (induction msgs arbitrary: d) (simp_all add: upsertMessage_keeps)

lemma foldl_upsert_keeps_log:
  "e \<in> set (logs d) \<Longrightarrow> e \<in> set (logs (foldl (upsertMessage R now) d msgs))"
  by (induction msgs arbitrary: d) (simp_all add: upsertMessage_keeps_log)


lemma upsertMessage_count:
  assumes one: "countMessageId (committed d) mid = 1"
  shows "countMessageId (committed (upsertMessage R now d msg)) mid = 1"
  using upsertMessage_messages [of R now d msg]
proof (elim disjE exE conjE)
  assume "messages (committed (upsertMessage R now d msg)) = messages (committed d)"
  with one show ?thesis by (simp add: countMessageId_def)
next
  fix r
  assume n: "\<not> hasMessage (committed d) (m_message_id r)"
    and a: "messages (committed (upsertMessage R now d msg)) = messages (committed d) @ [r]"
  have "m_message_id r \<noteq> mid"
  proof
    assume "m_message_id r = mid"
    with n have "filter (\<lambda>r. m_message_id r = mid) (messages (committed d)) = []"
      by (simp add: hasMessage_def Message_findOne_def find_None_iff_filter)
    with one show False by (simp add: countMessageId_def)
  qed
  with one a show ?thesis by (simp add: countMessageId_def)
qed

lemma foldl_upsert_count:
  "countMessageId (committed d) mid = 1 \<Longrightarrow> countMessageId (committed (foldl (upsertMessage R now) d msgs)) mid = 1"
  by (induction msgs arbitrary: d) (simp_all add: upsertMessage_count)

lemma upsertMessage_distinct:
  assumes "distinct (map m_message_id (messages (committed d)))"
  shows "distinct (map m_message_id (messages (committed (upsertMessage R now d msg))))"
  using upsertMessage_messages [of R now d msg] assms
  by (elim disjE exE conjE) (auto simp: hasMessage_iff)

lemma foldl_upsert_distinct:
  "distinct (map m_message_id (messages (committed d)))
     \<Longrightarrow> distinct (map m_message_id (messages (committed (foldl (upsertMessage R now) d msgs))))"
  by (induction msgs arbitrary: d) (simp_all add: upsertMessage_distinct)

text \<open>A duplicate whose chat and sender are known changes no table and logs one debug line.\<close>

lemma saveMessage_duplicate:
  assumes j: "remoteJid k = Some jid" "jid \<noteq> []"
    and h: "hasMessage (committed d) mid"
    and c: "Chat_findOne (committed d) jid \<noteq> None"
    and s: "Contact_findOne (committed d) (senderIdOf k) \<noteq> None"
  shows "saveMessage R now d msg jid mid k
     = logAdd Debug (if resolveMessageType (message msg) = ''protocol''
                     then ''Skipping protocol message'' else ''Message already exists, skipped'')
         (Some mid) d"
proof (cases "resolveMessageType (message msg) = ''protocol''")
  case True
  then show ?thesis by (simp add: saveMessage_def)
next
  case np: False
  from c obtain ch where ch: "Chat_findOne (committed d) jid = Some ch" by auto
  from s obtain co where co: "Contact_findOne (committed d) (senderIdOf k) = Some co" by auto
  from h obtain r where r: "Message_findOne (committed d) mid = Some r" by (auto simp: hasMessage_def)
  have "saveMessage R now d msg jid mid k
      = (logAdd Debug ''Message already exists, skipped'' (Some mid) d)\<lparr>committed := committed d\<rparr>"
    using np ch co r senderIdOf_nonempty [OF j]
    by (simp add: saveMessage_def Chat_findOrCreate_def findOrCreateSender_def
        Contact_findOrCreate_def Message_findOrCreate_def)
  with np show ?thesis by (simp add: logAdd_def)
qed

text \<open>The outcome of a turn for a message with key fields that is not a protocol message.\<close>

lemma upsertMessage_outcome:
  assumes v: "key msg = Some k" "remoteJid k = Some jid" "key_id k = Some mid" "jid \<noteq> []" "mid \<noteq> []"
    and np: "resolveMessageType (message msg) \<noteq> ''protocol''"
  shows "hasMessage (committed (upsertMessage R now d msg)) mid
         \<or> Log Error ''Failed to process message'' (Some mid) \<in> set (logs (upsertMessage R now d msg))"
  using saveMessage_cases [OF v(2) v(4), of msg R now d mid] np v(1) v(3)
  unfolding upsertMessage_valid [OF v]
  by (elim disjE conjE exE) (auto simp: hasMessage_iff)

lemma upsertMessage_accepted:
  assumes v: "key msg = Some k" "remoteJid k = Some jid" "key_id k = Some mid" "jid \<noteq> []" "mid \<noteq> []"
    and np: "resolveMessageType (message msg) \<noteq> ''protocol''"
    and a1: "\<forall>c. c_chat_id c = jid \<and> c_name c = None \<longrightarrow> \<not> rej_chat R c"
    and a2: "\<forall>c. ct_contact_id c = senderIdOf k \<and> ct_name c = or_null (pushName msg) \<longrightarrow> \<not> rej_contact R c"
    and a3: "\<forall>r. m_message_id r = mid \<and> m_sender_id r = senderIdOf k
                 \<and> m_sender_name r = or_null (pushName msg) \<longrightarrow> \<not> rej_message R r"
  shows "hasMessage (committed (upsertMessage R now d msg)) mid"
  using saveMessage_cases [OF v(2) v(4), of msg R now d mid] np a1 a2 a3
  unfolding upsertMessage_valid [OF v]
  by (elim disjE conjE exE) (auto simp: hasMessage_iff)

lemma foldl_upsert_outcome:
  assumes "msg \<in> set msgs"
    and v: "key msg = Some k" "remoteJid k = Some jid" "key_id k = Some mid" "jid \<noteq> []" "mid \<noteq> []"
    and np: "resolveMessageType (message msg) \<noteq> ''protocol''"
  shows "hasMessage (committed (foldl (upsertMessage R now) d msgs)) mid
         \<or> Log Error ''Failed to process message'' (Some mid) \<in> set (logs (foldl (upsertMessage R now) d msgs))"
  using assms(1)
proof (induction msgs arbitrary: d)
  case Nil
  then show ?case by simp
next
  case (Cons a msgs)
  show ?case
  proof (cases "msg = a")
    case True
    from upsertMessage_outcome [OF v np, of R now d]
    show ?thesis
      unfolding True [symmetric]
      by (auto intro: foldl_upsert_keeps foldl_upsert_keeps_log)
  next
    case False
    with Cons.prems have "msg \<in> set msgs" by simp
    from Cons.IH [OF this] show ?thesis by simp
  qed
qed

lemma foldl_upsert_accepted:
  assumes "msg \<in> set msgs"
    and v: "key msg = Some k" "remoteJid k = Some jid" "key_id k = Some mid" "jid \<noteq> []" "mid \<noteq> []"
    and np: "resolveMessageType (message msg) \<noteq> ''protocol''"
    and a1: "\<forall>c. c_chat_id c = jid \<and> c_name c = None \<longrightarrow> \<not> rej_chat R c"
    and a2: "\<forall>c. ct_contact_id c = senderIdOf k \<and> ct_name c = or_null (pushName msg) \<longrightarrow> \<not> rej_contact R c"
    and a3: "\<forall>r. m_message_id r = mid \<and> m_sender_id r = senderIdOf k
                 \<and> m_sender_name r = or_null (pushName msg) \<longrightarrow> \<not> rej_message R r"
  shows "hasMessage (committed (foldl (upsertMessage R now) d msgs)) mid"
  using assms(1)
proof (induction msgs arbitrary: d)
  case Nil
  then show ?case by simp
next
  case (Cons a msgs)
  show ?case
  proof (cases "msg = a")
    case True
    from upsertMessage_accepted [OF v np a1 a2 a3, of now d]
    show ?thesis
      unfolding True [symmetric]
      by (auto intro: foldl_upsert_keeps)
  next
    case False
    with Cons.prems have "msg \<in> set msgs" by simp
    from Cons.IH [OF this] show ?thesis by simp
  qed
qed

lemma foldl_upsert_rejected:
  assumes r: "\<forall>r. m_message_id r = mid \<longrightarrow> rej_message R r"
  shows "\<not> hasMessage (committed d) mid \<Longrightarrow> \<not> hasMessage (committed (foldl (upsertMessage R now) d msgs)) mid"
proof (induction msgs arbitrary: d)
  case Nil
  then show ?case by simp
next
  case (Cons a msgs)
  have "\<not> hasMessage (committed (upsertMessage R now d a)) mid"
    using upsertMessage_messages [of R now d a] Cons.prems r
    by (elim disjE exE conjE) (auto simp: hasMessage_iff)
  from Cons.IH [OF this] show ?case by simp
qed

text \<open>
  C6. Every message of a batch is handled inside its own error boundary. For a message
  \<open>msg\<close> of the batch with both key fields that is not a protocol message: after the
  whole batch, either a row with its external id is stored or the log holds the error
  entry \<open>Failed to process message\<close> with that id; if the store accepts the rows the
  handler writes for it (its chat, its sender and the message itself), the row is
  stored, whatever happened to the other messages of the batch; and if the store
  refuses every row with that id and none was stored before, no row is stored and the
  error entry is in the log. \<open>handleUpsert\<close> itself always returns.
\<close>

theorem c6_per_item_error_boundary:
  "msg \<in> set msgs \<and> key msg = Some k \<and> remoteJid k = Some jid \<and> key_id k = Some mid
     \<and> jid \<noteq> [] \<and> mid \<noteq> [] \<and> resolveMessageType (message msg) \<noteq> ''protocol'' \<longrightarrow>
   (hasMessage (committed (handleUpsert R now d msgs)) mid
      \<or> Log Error ''Failed to process message'' (Some mid) \<in> set (logs (handleUpsert R now d msgs)))
   \<and> ((\<forall>c. c_chat_id c = jid \<and> c_name c = None \<longrightarrow> \<not> rej_chat R c)
        \<and> (\<forall>c. ct_contact_id c = senderIdOf k \<and> ct_name c = or_null (pushName msg) \<longrightarrow> \<not> rej_contact R c)
        \<and> (\<forall>r. m_message_id r = mid \<and> m_sender_id r = senderIdOf k
                 \<and> m_sender_name r = or_null (pushName msg) \<longrightarrow> \<not> rej_message R r)
       \<longrightarrow> hasMessage (committed (handleUpsert R now d msgs)) mid)
   \<and> ((\<forall>r. m_message_id r = mid \<longrightarrow> rej_message R r) \<and> \<not> hasMessage (committed d) mid
       \<longrightarrow> \<not> hasMessage (committed (handleUpsert R now d msgs)) mid
           \<and> Log Error ''Failed to process message'' (Some mid) \<in> set (logs (handleUpsert R now d msgs)))"
proof (intro impI)
  assume h: "msg \<in> set msgs \<and> key msg = Some k \<and> remoteJid k = Some jid \<and> key_id k = Some mid
     \<and> jid \<noteq> [] \<and> mid \<noteq> [] \<and> resolveMessageType (message msg) \<noteq> ''protocol''"
  then have m: "msg \<in> set msgs"
    and v: "key msg = Some k" "remoteJid k = Some jid" "key_id k = Some mid" "jid \<noteq> []" "mid \<noteq> []"
    and np: "resolveMessageType (message msg) \<noteq> ''protocol''" by simp_all
  let ?d0 = "logAdd Info ''Processing message upsert'' None d"
  have out: "hasMessage (committed (handleUpsert R now d msgs)) mid
      \<or> Log Error ''Failed to process message'' (Some mid) \<in> set (logs (handleUpsert R now d msgs))"
    unfolding handleUpsert_def by (rule foldl_upsert_outcome [OF m v np])
  have acc: "(\<forall>c. c_chat_id c = jid \<and> c_name c = None \<longrightarrow> \<not> rej_chat R c)
        \<and> (\<forall>c. ct_contact_id c = senderIdOf k \<and> ct_name c = or_null (pushName msg) \<longrightarrow> \<not> rej_contact R c)
        \<and> (\<forall>r. m_message_id r = mid \<and> m_sender_id r = senderIdOf k
                 \<and> m_sender_name r = or_null (pushName msg) \<longrightarrow> \<not> rej_message R r)
       \<longrightarrow> hasMessage (committed (handleUpsert R now d msgs)) mid"
    unfolding handleUpsert_def using foldl_upsert_accepted [OF m v np, of R now ?d0] by blast
  have rej: "(\<forall>r. m_message_id r = mid \<longrightarrow> rej_message R r) \<and> \<not> hasMessage (committed d) mid
       \<longrightarrow> \<not> hasMessage (committed (handleUpsert R now d msgs)) mid
           \<and> Log Error ''Failed to process message'' (Some mid) \<in> set (logs (handleUpsert R now d msgs))"
  proof (intro impI, elim conjE)
    assume r: "\<forall>r. m_message_id r = mid \<longrightarrow> rej_message R r" and n: "\<not> hasMessage (committed d) mid"
    have "\<not> hasMessage (committed ?d0) mid" using n by (simp add: logAdd_def)
    from foldl_upsert_rejected [OF r this]
    have no: "\<not> hasMessage (committed (handleUpsert R now d msgs)) mid"
      unfolding handleUpsert_def .
    with out show "\<not> hasMessage (committed (handleUpsert R now d msgs)) mid
           \<and> Log Error ''Failed to process message'' (Some mid) \<in> set (logs (handleUpsert R now d msgs))"
      by simp
  qed
  show "(hasMessage (committed (handleUpsert R now d msgs)) mid
      \<or> Log Error ''Failed to process message'' (Some mid) \<in> set (logs (handleUpsert R now d msgs)))
   \<and> ((\<forall>c. c_chat_id c = jid \<and> c_name c = None \<longrightarrow> \<not> rej_chat R c)
        \<and> (\<forall>c. ct_contact_id c = senderIdOf k \<and> ct_name c = or_null (pushName msg) \<longrightarrow> \<not> rej_contact R c)
        \<and> (\<forall>r. m_message_id r = mid \<and> m_sender_id r = senderIdOf k
                 \<and> m_sender_name r = or_null (pushName msg) \<longrightarrow> \<not> rej_message R r)
       \<longrightarrow> hasMessage (committed (handleUpsert R now d msgs)) mid)
   \<and> ((\<forall>r. m_message_id r = mid \<longrightarrow> rej_message R r) \<and> \<not> hasMessage (committed d) mid
       \<longrightarrow> \<not> hasMessage (committed (handleUpsert R now d msgs)) mid
           \<and> Log Error ''Failed to process message'' (Some mid) \<in> set (logs (handleUpsert R now d msgs)))"
    by (intro conjI) (rule out, rule acc, rule rej)
qed

lemma textMessage_key:
  "key (textMessage jid mid txt) = Some \<lparr> remoteJid = Some jid, key_id = Some mid, participant = None, fromMe = Some False \<rparr>"
  "resolveMessageType (message (textMessage jid mid txt)) = ''chat''"
  "pushName (textMessage jid mid txt) = Some ''Ann''"
  by (simp_all add: textMessage_def resolveMessageType_def objectKeys_def keyType_def)

text \<open>
  Five messages under the column widths of the schema, the third with an external id
  of 256 characters, which \<open>message_id VARCHAR(255)\<close> refuses.
\<close>

theorem c6_per_item_error_boundary_witness:
  "hasMessage (committed (handleUpsert schemaRules 0 newDb batchOfFive)) ''M1''
   \<and> hasMessage (committed (handleUpsert schemaRules 0 newDb batchOfFive)) ''M2''
   \<and> \<not> hasMessage (committed (handleUpsert schemaRules 0 newDb batchOfFive)) longId
   \<and> Log Error ''Failed to process message'' (Some longId) \<in> set (logs (handleUpsert schemaRules 0 newDb batchOfFive))
   \<and> hasMessage (committed (handleUpsert schemaRules 0 newDb batchOfFive)) ''M4''
   \<and> hasMessage (committed (handleUpsert schemaRules 0 newDb batchOfFive)) ''M5''"
proof -
  let ?k = "\<lambda>mid. \<lparr> remoteJid = Some ''1@s.whatsapp.net'', key_id = Some mid, participant = None, fromMe = Some False \<rparr>"
  let ?m = "\<lambda>mid txt. textMessage ''1@s.whatsapp.net'' mid txt"
  have sender: "\<And>mid. senderIdOf (?k mid) = ''1@s.whatsapp.net''"
    by (simp add: senderIdOf_def js_or_def truthy_def)
  have a1: "\<forall>c. c_chat_id c = ''1@s.whatsapp.net'' \<and> c_name c = None \<longrightarrow> \<not> rej_chat schemaRules c"
    by (simp add: schemaRules_def fits_def)
  have a2: "\<And>mid txt. \<forall>c. ct_contact_id c = senderIdOf (?k mid) \<and> ct_name c = or_null (pushName (?m mid txt))
              \<longrightarrow> \<not> rej_contact schemaRules c"
    by (simp add: sender textMessage_key schemaRules_def fits_def or_null_def js_or_def truthy_def)
  have a3: "\<And>mid txt. length mid \<le> 255 \<Longrightarrow> \<forall>r. m_message_id r = mid \<and> m_sender_id r = senderIdOf (?k mid)
                 \<and> m_sender_name r = or_null (pushName (?m mid txt)) \<longrightarrow> \<not> rej_message schemaRules r"
    by (simp add: sender textMessage_key schemaRules_def fits_def or_null_def js_or_def truthy_def)
  have ok: "\<And>mid txt. ?m mid txt \<in> set batchOfFive \<Longrightarrow> mid \<noteq> [] \<Longrightarrow> length mid \<le> 255
            \<Longrightarrow> hasMessage (committed (handleUpsert schemaRules 0 newDb batchOfFive)) mid"
    using c6_per_item_error_boundary [of "?m _ _" batchOfFive "?k _" "''1@s.whatsapp.net''" _ schemaRules 0 newDb]
      a1 a2 a3
    by (simp add: textMessage_key)
  have l: "length longId = 256" "longId \<noteq> []" by (simp_all add: longId_def)
  have r3: "\<forall>r. m_message_id r = longId \<longrightarrow> rej_message schemaRules r"
    by (simp add: schemaRules_def l)
  have e: "\<not> hasMessage (committed newDb) longId"
    by (simp add: hasMessage_def Message_findOne_def newDb_def emptyTables_def)
  have bad: "\<not> hasMessage (committed (handleUpsert schemaRules 0 newDb batchOfFive)) longId
     \<and> Log Error ''Failed to process message'' (Some longId) \<in> set (logs (handleUpsert schemaRules 0 newDb batchOfFive))"
    using c6_per_item_error_boundary [of "?m longId ''three''" batchOfFive "?k longId" "''1@s.whatsapp.net''" longId schemaRules 0 newDb]
      r3 e l
    by (simp add: textMessage_key batchOfFive_def)
  show ?thesis
    using ok [of "''M1''" "''one''"] ok [of "''M2''" "''two''"] ok [of "''M4''" "''four''"] ok [of "''M5''" "''five''"] bad
    by (simp add: batchOfFive_def)
qed

lemma countMessageId_zero: "\<not> hasMessage t mid \<Longrightarrow> countMessageId t mid = 0"
  by (simp add: hasMessage_def Message_findOne_def find_None_iff_filter countMessageId_def)

lemma upsertMessage_inserted:
  assumes v: "key msg = Some k" "remoteJid k = Some jid" "key_id k = Some mid" "jid \<noteq> []" "mid \<noteq> []"
    and n: "\<not> hasMessage (committed d) mid"
    and h: "hasMessage (committed (upsertMessage R now d msg)) mid"
  shows "Chat_findOne (committed (upsertMessage R now d msg)) jid \<noteq> None
         \<and> Contact_findOne (committed (upsertMessage R now d msg)) (senderIdOf k) \<noteq> None
         \<and> countMessageId (committed (upsertMessage R now d msg)) mid = 1"
  using saveMessage_cases [OF v(2) v(4), of msg R now d mid] n h countMessageId_zero [OF n]
  unfolding upsertMessage_valid [OF v]
  by (elim disjE conjE exE) (auto simp: hasMessage_iff countMessageId_def)

lemma handleUpsert_single: "handleUpsert R now d [msg] = upsertMessage R now (logAdd Info ''Processing message upsert'' None d) msg"
  by (simp add: handleUpsert_def)

lemma handleUpsert_duplicate:
  assumes v: "key msg = Some k" "remoteJid k = Some jid" "key_id k = Some mid" "jid \<noteq> []" "mid \<noteq> []"
    and h: "hasMessage (committed d) mid"
    and c: "Chat_findOne (committed d) jid \<noteq> None"
    and s: "Contact_findOne (committed d) (senderIdOf k) \<noteq> None"
  shows "committed (handleUpsert R now d [msg]) = committed d"
    and "logs (handleUpsert R now d [msg])
       = logs d @ [Log Info ''Processing message upsert'' None,
                   Log Debug (if resolveMessageType (message msg) = ''protocol''
                              then ''Skipping protocol message'' else ''Message already exists, skipped'')
                     (Some mid)]"
proof -
  let ?d0 = "logAdd Info ''Processing message upsert'' None d"
  have e: "handleUpsert R now d [msg]
      = logAdd Debug (if resolveMessageType (message msg) = ''protocol''
                     then ''Skipping protocol message'' else ''Message already exists, skipped'')
         (Some mid) ?d0"
    unfolding handleUpsert_single upsertMessage_valid [OF v]
    by (rule saveMessage_duplicate [OF v(2) v(4)]) (use h c s in simp_all)
  show "committed (handleUpsert R now d [msg]) = committed d" unfolding e by simp
  show "logs (handleUpsert R now d [msg])
       = logs d @ [Log Info ''Processing message upsert'' None,
                   Log Debug (if resolveMessageType (message msg) = ''protocol''
                              then ''Skipping protocol message'' else ''Message already exists, skipped'')
                     (Some mid)]" unfolding e by simp
qed

text \<open>
  C1. Ingestion is idempotent on the external message id. An id that has exactly one
  row keeps exactly one row through any batch, and a table with pairwise different ids
  keeps them pairwise different. Ingesting an event whose id is stored, whose chat
  and whose sender are known, changes no table and adds to the log only the line of the
  batch and one debug line (\<open>Message already exists, skipped\<close>, or the protocol skip):
  no error entry. In particular, when a first ingestion of an event has stored its
  message, that message has one row, and ingesting the same event again changes no
  table and logs the duplicate at debug level.
\<close>

theorem c1_duplicate_message_is_noop:
  "(countMessageId (committed d) mid = 1 \<longrightarrow> countMessageId (committed (handleUpsert R now d msgs)) mid = 1)
   \<and> (distinct (map m_message_id (messages (committed d)))
        \<longrightarrow> distinct (map m_message_id (messages (committed (handleUpsert R now d msgs)))))
   \<and> (key msg = Some k \<and> remoteJid k = Some jid \<and> key_id k = Some mid \<and> jid \<noteq> [] \<and> mid \<noteq> []
        \<and> hasMessage (committed d) mid \<and> Chat_findOne (committed d) jid \<noteq> None
        \<and> Contact_findOne (committed d) (senderIdOf k) \<noteq> None
       \<longrightarrow> committed (handleUpsert R now d [msg]) = committed d
           \<and> logs (handleUpsert R now d [msg])
               = logs d @ [Log Info ''Processing message upsert'' None,
                           Log Debug (if resolveMessageType (message msg) = ''protocol''
                                      then ''Skipping protocol message''
                                      else ''Message already exists, skipped'') (Some mid)])
   \<and> (key msg = Some k \<and> remoteJid k = Some jid \<and> key_id k = Some mid \<and> jid \<noteq> [] \<and> mid \<noteq> []
        \<and> \<not> hasMessage (committed d) mid \<and> hasMessage (committed (handleUpsert R now d [msg])) mid
       \<longrightarrow> countMessageId (committed (handleUpsert R now d [msg])) mid = 1
           \<and> committed (handleUpsert R later (handleUpsert R now d [msg]) [msg])
               = committed (handleUpsert R now d [msg])
           \<and> logs (handleUpsert R later (handleUpsert R now d [msg]) [msg])
               = logs (handleUpsert R now d [msg])
                   @ [Log Info ''Processing message upsert'' None,
                      Log Debug ''Message already exists, skipped'' (Some mid)])"
proof (intro conjI impI)
  assume "countMessageId (committed d) mid = 1"
  then show "countMessageId (committed (handleUpsert R now d msgs)) mid = 1"
    unfolding handleUpsert_def by (intro foldl_upsert_count) simp
next
  assume "distinct (map m_message_id (messages (committed d)))"
  then show "distinct (map m_message_id (messages (committed (handleUpsert R now d msgs))))"
    unfolding handleUpsert_def by (intro foldl_upsert_distinct) simp
next
  assume a: "key msg = Some k \<and> remoteJid k = Some jid \<and> key_id k = Some mid \<and> jid \<noteq> [] \<and> mid \<noteq> []
        \<and> hasMessage (committed d) mid \<and> Chat_findOne (committed d) jid \<noteq> None
        \<and> Contact_findOne (committed d) (senderIdOf k) \<noteq> None"
  then have v: "key msg = Some k" "remoteJid k = Some jid" "key_id k = Some mid" "jid \<noteq> []" "mid \<noteq> []"
    and h: "hasMessage (committed d) mid" "Chat_findOne (committed d) jid \<noteq> None"
      "Contact_findOne (committed d) (senderIdOf k) \<noteq> None" by simp_all
  show "committed (handleUpsert R now d [msg]) = committed d"
    by (rule handleUpsert_duplicate(1) [OF v h])
  show "logs (handleUpsert R now d [msg])
               = logs d @ [Log Info ''Processing message upsert'' None,
                           Log Debug (if resolveMessageType (message msg) = ''protocol''
                                      then ''Skipping protocol message''
                                      else ''Message already exists, skipped'') (Some mid)]"
    by (rule handleUpsert_duplicate(2) [OF v h])
next
  assume a: "key msg = Some k \<and> remoteJid k = Some jid \<and> key_id k = Some mid \<and> jid \<noteq> [] \<and> mid \<noteq> []
        \<and> \<not> hasMessage (committed d) mid \<and> hasMessage (committed (handleUpsert R now d [msg])) mid"
  then have v: "key msg = Some k" "remoteJid k = Some jid" "key_id k = Some mid" "jid \<noteq> []" "mid \<noteq> []"
    and n: "\<not> hasMessage (committed d) mid"
    and h: "hasMessage (committed (handleUpsert R now d [msg])) mid" by simp_all
  let ?d0 = "logAdd Info ''Processing message upsert'' None d"
  let ?d1 = "handleUpsert R now d [msg]"
  have n0: "\<not> hasMessage (committed ?d0) mid" using n by simp
  have h0: "hasMessage (committed (upsertMessage R now ?d0 msg)) mid" using h by (simp add: handleUpsert_single)
  from upsertMessage_inserted [OF v n0 h0]
  have i: "Chat_findOne (committed ?d1) jid \<noteq> None"
    "Contact_findOne (committed ?d1) (senderIdOf k) \<noteq> None"
    "countMessageId (committed ?d1) mid = 1"
    by (simp_all add: handleUpsert_single)
  have np: "resolveMessageType (message msg) \<noteq> ''protocol''"
  proof
    assume "resolveMessageType (message msg) = ''protocol''"
    then have "committed ?d1 = committed d"
      by (simp add: handleUpsert_single upsertMessage_valid [OF v] saveMessage_def)
    with n h show False by simp
  qed
  show "countMessageId (committed ?d1) mid = 1" by (rule i(3))
  show "committed (handleUpsert R later ?d1 [msg]) = committed ?d1"
    by (rule handleUpsert_duplicate(1) [OF v h i(1) i(2)])
  show "logs (handleUpsert R later ?d1 [msg])
               = logs ?d1 @ [Log Info ''Processing message upsert'' None,
                      Log Debug ''Message already exists, skipped'' (Some mid)]"
    using handleUpsert_duplicate(2) [OF v h i(1) i(2), of R later] np by simp
qed

lemmas message_defs = handleUpsert_def upsertMessage_def saveMessage_def failedMessage_def logAdd_def
  senderIdOf_def js_or_def or_null_def truthy_def resolveMessageType_def objectKeys_def keyType_def
  extractBody_def textAt_def fieldAt_def contextInfoOf_def contextAt_def isForwardedOf_def
  extractTimestamp_def hasMedia_def chatTypeFromJid_def endsWith_def List.map_filter_def
  findOrCreateSender_def quotedMessageDbId_def messageDefaults_def chatUpdateFor_def
  Chat_findOrCreate_def Chat_findOne_def Chat_update_def Contact_findOrCreate_def
  Contact_findOne_def Message_findOrCreate_def Message_findOne_def hasMessage_def
  textMessage_def newDb_def emptyTables_def acceptAll_def Let_def

theorem c1_duplicate_message_is_noop_witness:
  "map m_message_id (messages (committed (handleUpsert acceptAll 5 newDb [textMessage ''1@s.whatsapp.net'' ''M1'' ''hello''])))
     = [''M1'']
   \<and> committed (handleUpsert acceptAll 9 (handleUpsert acceptAll 5 newDb [textMessage ''1@s.whatsapp.net'' ''M1'' ''hello''])
        [textMessage ''1@s.whatsapp.net'' ''M1'' ''hello''])
       = committed (handleUpsert acceptAll 5 newDb [textMessage ''1@s.whatsapp.net'' ''M1'' ''hello''])
   \<and> countMessageId (committed (handleUpsert acceptAll 9 (handleUpsert acceptAll 5 newDb [textMessage ''1@s.whatsapp.net'' ''M1'' ''hello''])
        [textMessage ''1@s.whatsapp.net'' ''M1'' ''hello''])) ''M1'' = 1
   \<and> logs (handleUpsert acceptAll 9 (handleUpsert acceptAll 5 newDb [textMessage ''1@s.whatsapp.net'' ''M1'' ''hello''])
        [textMessage ''1@s.whatsapp.net'' ''M1'' ''hello''])
       = [Log Info ''Processing message upsert'' None, Log Info ''Message saved'' (Some ''M1''),
          Log Info ''Processing message upsert'' None, Log Debug ''Message already exists, skipped'' (Some ''M1'')]"
proof -
  let ?m = "textMessage ''1@s.whatsapp.net'' ''M1'' ''hello''"
  let ?k = "\<lparr> remoteJid = Some ''1@s.whatsapp.net'', key_id = Some ''M1'', participant = None, fromMe = Some False \<rparr>"
  let ?d1 = "handleUpsert acceptAll 5 newDb [?m]"
  have ids: "map m_message_id (messages (committed ?d1)) = [''M1'']"
    and l1: "logs ?d1 = [Log Info ''Processing message upsert'' None, Log Info ''Message saved'' (Some ''M1'')]"
    by (simp_all add: message_defs)
  have h1: "hasMessage (committed ?d1) ''M1''" using ids by (auto simp: hasMessage_iff)
  have n0: "\<not> hasMessage (committed newDb) ''M1''" by (simp add: message_defs)
  have kk: "key ?m = Some ?k" by (simp add: textMessage_def)
  from c1_duplicate_message_is_noop [where d=newDb and mid="''M1''" and R=acceptAll and now=5
      and later=9 and msg="?m" and k="?k" and jid="''1@s.whatsapp.net''" and msgs="[?m]"]
    kk n0 h1 l1 ids
  show ?thesis by simp
qed

section \<open>Properties of the chat and contact handlers\<close>

lemma chatChanges_archive:
  "foldl chatAssign r (case f of Val b \<Rightarrow> [Set_is_archived b] | Null \<Rightarrow> [] | Undefined \<Rightarrow> [])
     = r\<lparr>c_is_archived := (case f of Val b \<Rightarrow> b | Null \<Rightarrow> c_is_archived r | Undefined \<Rightarrow> c_is_archived r)\<rparr>"
  by (cases f) simp_all

lemma chatChanges_pin:
  "foldl chatAssign r (case f of Val n \<Rightarrow> [Set_is_pinned (n > 0)] | Null \<Rightarrow> [] | Undefined \<Rightarrow> [])
     = r\<lparr>c_is_pinned := (case f of Val n \<Rightarrow> n > 0 | Null \<Rightarrow> c_is_pinned r | Undefined \<Rightarrow> c_is_pinned r)\<rparr>"
  by (cases f) simp_all

lemma chatChanges_mute:
  "foldl chatAssign r (case f of Val n \<Rightarrow> [Set_is_muted (n > 0)] | Null \<Rightarrow> [] | Undefined \<Rightarrow> [])
     = r\<lparr>c_is_muted := (case f of Val n \<Rightarrow> n > 0 | Null \<Rightarrow> c_is_muted r | Undefined \<Rightarrow> c_is_muted r)\<rparr>"
  by (cases f) simp_all

lemma chatChanges_name:
  "foldl chatAssign r (case f of Val n \<Rightarrow> [Set_name (Some n)] | Null \<Rightarrow> [Set_name None] | Undefined \<Rightarrow> [])
     = r\<lparr>c_name := (case f of Val n \<Rightarrow> Some n | Null \<Rightarrow> None | Undefined \<Rightarrow> c_name r)\<rparr>"
  by (cases f) simp_all

lemma chatChanges_unread:
  "foldl chatAssign r (case f of Val n \<Rightarrow> [Set_unread_count n] | Null \<Rightarrow> [] | Undefined \<Rightarrow> [])
     = r\<lparr>c_unread_count := (case f of Val n \<Rightarrow> n | Null \<Rightarrow> c_unread_count r | Undefined \<Rightarrow> c_unread_count r)\<rparr>"
  by (cases f) simp_all

lemma foldl_chatChanges:
  "foldl chatAssign c (chatChanges u)
     = c\<lparr> c_is_archived := (case cu_archive u of Val b \<Rightarrow> b | Null \<Rightarrow> c_is_archived c | Undefined \<Rightarrow> c_is_archived c),
          c_is_pinned := (case cu_pin u of Val n \<Rightarrow> n > 0 | Null \<Rightarrow> c_is_pinned c | Undefined \<Rightarrow> c_is_pinned c),
          c_is_muted := (case cu_mute u of Val n \<Rightarrow> n > 0 | Null \<Rightarrow> c_is_muted c | Undefined \<Rightarrow> c_is_muted c),
          c_name := (case cu_name u of Val n \<Rightarrow> Some n | Null \<Rightarrow> None | Undefined \<Rightarrow> c_name c),
          c_unread_count := (case cu_unreadCount u of Val n \<Rightarrow> n | Null \<Rightarrow> c_unread_count c | Undefined \<Rightarrow> c_unread_count c) \<rparr>"
  by (simp add: chatChanges_def chatChanges_archive chatChanges_pin chatChanges_mute
      chatChanges_name chatChanges_unread cong: field.case_cong)

lemma Chat_update_accepted:
  "\<forall>r. \<not> rej_chat R r \<Longrightarrow> \<exists>t'. Chat_update R t pk ch = Inr t'"
  by (simp add: Chat_update_def)

lemma chatUpdateItem_found:
  assumes i: "cu_id u \<noteq> []" and f: "Chat_findOne (committed d) (cu_id u) = Some c"
    and a: "\<forall>r. \<not> rej_chat R r"
  shows "Chat_findOne (committed (chatUpdateItem R d u)) (cu_id u) = Some (foldl chatAssign c (chatChanges u))"
proof (cases "chatChanges u = []")
  case True
  with i f show ?thesis by (simp add: chatUpdateItem_def)
next
  case False
  from Chat_update_accepted [OF a] obtain t' where
    u: "Chat_update R (committed d) (c_id c) (chatChanges u) = Inr t'" by blast
  from Chat_update_findOne [OF u, of "cu_id u"] f
  have "Chat_findOne t' (cu_id u) = Some (foldl chatAssign c (chatChanges u))" by simp
  with i f False u show ?thesis by (simp add: chatUpdateItem_def)
qed

subsection \<open>Contacts\<close>

lemma contactChanges_img:
  "foldl contactAssign r (case f of Val v \<Rightarrow> [Set_avatar_url (Some v)] | Null \<Rightarrow> [Set_avatar_url None] | Undefined \<Rightarrow> [])
     = r\<lparr>ct_avatar_url := (case f of Val v \<Rightarrow> Some v | Null \<Rightarrow> None | Undefined \<Rightarrow> ct_avatar_url r)\<rparr>"
  by (cases f) simp_all

lemma contactChanges_status:
  "foldl contactAssign r (case f of Val v \<Rightarrow> [Set_about (Some v)] | Null \<Rightarrow> [Set_about None] | Undefined \<Rightarrow> [])
     = r\<lparr>ct_about := (case f of Val v \<Rightarrow> Some v | Null \<Rightarrow> None | Undefined \<Rightarrow> ct_about r)\<rparr>"
  by (cases f) simp_all

lemma contactChanges_name:
  "foldl contactAssign r (case n of Some m \<Rightarrow> [Set_ct_name (Some m)] | None \<Rightarrow> [])
     = r\<lparr>ct_name := (case n of Some m \<Rightarrow> Some m | None \<Rightarrow> ct_name r)\<rparr>"
  by (cases n) simp_all

lemma foldl_contactChanges:
  "foldl contactAssign k (contactChanges v)
     = k\<lparr> ct_name := (case contactNameOf v of Some m \<Rightarrow> Some m | None \<Rightarrow> ct_name k),
          ct_avatar_url := (case co_imgUrl v of Val x \<Rightarrow> Some x | Null \<Rightarrow> None | Undefined \<Rightarrow> ct_avatar_url k),
          ct_about := (case co_status v of Val x \<Rightarrow> Some x | Null \<Rightarrow> None | Undefined \<Rightarrow> ct_about k) \<rparr>"
  by (simp add: contactChanges_def contactChanges_img contactChanges_status contactChanges_name
      cong: field.case_cong option.case_cong)

lemma contactAssign_keeps_id: "ct_contact_id (foldl contactAssign r ch) = ct_contact_id r"
proof (induction ch arbitrary: r)
  case Nil
  show ?case by simp
next
  case (Cons a ch)
  have "ct_contact_id (contactAssign r a) = ct_contact_id r" by (cases a) simp_all
  with Cons [of "contactAssign r a"] show ?case by simp
qed

lemma Contact_update_findOne:
  "Contact_update R t cid ch = Inr t' \<Longrightarrow>
     Contact_findOne t' x = map_option (\<lambda>r. if ct_contact_id r = cid then foldl contactAssign r ch else r) (Contact_findOne t x)"
proof -
  assume u: "Contact_update R t cid ch = Inr t'"
  then have c: "contacts t' = map (\<lambda>r. if ct_contact_id r = cid then foldl contactAssign r ch else r) (contacts t)"
    by (auto simp: Contact_update_def split: if_splits)
  show ?thesis
    unfolding Contact_findOne_def c
    by (rule find_map_same) (simp add: contactAssign_keeps_id)
qed

lemma Contact_update_accepted:
  "\<forall>r. \<not> rej_contact R r \<Longrightarrow> \<exists>t'. Contact_update R t cid ch = Inr t'"
  by (simp add: Contact_update_def)

lemma find_Some_P: "find P xs = Some x \<Longrightarrow> P x"
  by (induction xs) (auto split: if_splits)

lemma contactUpdateItem_found:
  assumes i: "co_id v \<noteq> []" and f: "Contact_findOne (committed d) (co_id v) = Some k"
    and a: "\<forall>r. \<not> rej_contact R r"
  shows "Contact_findOne (committed (contactUpdateItem R now d v)) x
     = (if x = co_id v
        then Some (if contactChanges v = [] then k
                   else (foldl contactAssign k (contactChanges v))\<lparr>ct_last_seen_at := Some now\<rparr>)
        else Contact_findOne (committed d) x)"
proof -
  have kid: "ct_contact_id k = co_id v" using find_Some_P [OF f [unfolded Contact_findOne_def]] .
  have fc: "Contact_findOrCreate R (committed d) (co_id v) (contactNameOf v)
                (or_null (fieldValue (co_imgUrl v))) (or_null (fieldValue (co_status v)))
        = Inr (committed d, k, False)"
    using f by (simp add: Contact_findOrCreate_def)
  show ?thesis
  proof (cases "contactChanges v = []")
    case True
    with i f fc show ?thesis by (simp add: contactUpdateItem_def)
  next
    case False
    from Contact_update_accepted [OF a] obtain t' where
      u: "Contact_update R (committed d) (ct_contact_id k) (contactChanges v @ [Set_last_seen_at now]) = Inr t'"
      by blast
    have r: "contactUpdateItem R now d v = logAdd Info ''Contact updated'' (Some (co_id v)) (d\<lparr>committed := t'\<rparr>)"
      using i fc False u by (simp add: contactUpdateItem_def)
    show ?thesis
    proof (cases "x = co_id v")
      case True
      with Contact_update_findOne [OF u, of x] f kid False r show ?thesis by simp
    next
      case ne: False
      show ?thesis
      proof (cases "Contact_findOne (committed d) x")
        case None
        with Contact_update_findOne [OF u, of x] ne r show ?thesis by simp
      next
        case (Some y)
        then have "ct_contact_id y = x" using find_Some_P [of "\<lambda>r. ct_contact_id r = x"] by (simp add: Contact_findOne_def)
        with Contact_update_findOne [OF u, of x] Some ne kid r show ?thesis by simp
      qed
    qed
  qed
qed

lemma contactUpdateItem_new:
  assumes i: "co_id v \<noteq> []" and f: "Contact_findOne (committed d) (co_id v) = None"
    and a: "\<forall>r. \<not> rej_contact R r"
  shows "Contact_findOne (committed (contactUpdateItem R now d v)) x
     = (if x = co_id v
        then Some \<lparr> ct_contact_id = co_id v, ct_name = contactNameOf v,
                    ct_avatar_url = or_null (fieldValue (co_imgUrl v)),
                    ct_about = or_null (fieldValue (co_status v)), ct_last_seen_at = None \<rparr>
        else Contact_findOne (committed d) x)"
  using i f a
  by (auto simp: contactUpdateItem_def Contact_findOrCreate_def Let_def Contact_findOne_def find_snoc
      split: option.splits)

lemma contactUpdateItem_skip:
  "co_id v = [] \<Longrightarrow> committed (contactUpdateItem R now d v) = committed d"
  by (simp add: contactUpdateItem_def)

lemma contactChanges_nonempty: "contactNameOf v = Some m \<Longrightarrow> contactChanges v \<noteq> []"
  by (simp add: contactChanges_def)

lemma contactUpdateItem_name:
  assumes c: "cid \<noteq> []" and a: "\<forall>r. \<not> rej_contact R r"
  shows "storedName (committed (contactUpdateItem R now d v)) cid
     = (if co_id v = cid
        then (case contactNameOf v of Some m \<Rightarrow> Some m | None \<Rightarrow> storedName (committed d) cid)
        else storedName (committed d) cid)"
proof (cases "co_id v = []")
  case True
  with c show ?thesis by (auto simp: storedName_def contactUpdateItem_skip)
next
  case i: False
  show ?thesis
  proof (cases "Contact_findOne (committed d) (co_id v)")
    case None
    from contactUpdateItem_new [OF i None a, of now cid] None show ?thesis
      by (auto simp: storedName_def split: option.splits)
  next
    case (Some k)
    from contactUpdateItem_found [OF i Some a, of now cid] Some show ?thesis
      by (auto simp: storedName_def foldl_contactChanges split: option.splits dest: contactChanges_nonempty)
  qed
qed

lemma foldl_contact_name:
  assumes c: "cid \<noteq> []" and a: "\<forall>r. \<not> rej_contact R r"
  shows "storedName (committed (foldl (contactUpdateItem R now) d us)) cid
     = foldl (\<lambda>n u. if co_id u = cid then (case contactNameOf u of Some m \<Rightarrow> Some m | None \<Rightarrow> n) else n)
         (storedName (committed d) cid) us"
  by (induction us arbitrary: d) (simp_all add: contactUpdateItem_name [OF c a])

lemma contactChanges_empty:
  "contactChanges v = [] \<Longrightarrow> contactNameOf v = None \<and> co_imgUrl v = Undefined \<and> co_status v = Undefined"
  by (auto simp: contactChanges_def split: option.splits field.splits)

lemma contactChanges_empty_iff:
  "(contactChanges v = []) = (contactNameOf v = None \<and> co_imgUrl v = Undefined \<and> co_status v = Undefined)"
  by (auto simp: contactChanges_def split: option.splits field.splits)

text \<open>
  C7, as amended. For an update of a chat that exists, when the store accepts the
  write: \<open>archive\<close>, \<open>pin\<close>, \<open>mute\<close> and \<open>unreadCount\<close> are applied only when they are
  present with a value (\<open>pin\<close> and \<open>mute\<close> as the test \<open>> 0\<close>), and an explicit \<open>null\<close>
  leaves the stored value as it is, as an absent field does; \<open>name\<close> is applied whenever
  it is present, an explicit \<open>null\<close> included. For an update of a contact that exists:
  \<open>imgUrl\<close> and \<open>status\<close> are applied whenever present, \<open>null\<close> included; the name is
  replaced only by \<open>name || notify\<close> when that is not empty; \<open>last_seen_at\<close> is set when
  anything is applied. Every other column keeps its value.
\<close>

theorem c7_update_fields_applied:
  "(cu_id u \<noteq> [] \<and> Chat_findOne (committed d) (cu_id u) = Some c \<and> (\<forall>r. \<not> rej_chat R r) \<longrightarrow>
      Chat_findOne (committed (ChatHandler_handleUpdate R d [u])) (cu_id u)
        = Some (c\<lparr> c_is_archived := (case cu_archive u of Val b \<Rightarrow> b | Null \<Rightarrow> c_is_archived c | Undefined \<Rightarrow> c_is_archived c),
                    c_is_pinned := (case cu_pin u of Val n \<Rightarrow> n > 0 | Null \<Rightarrow> c_is_pinned c | Undefined \<Rightarrow> c_is_pinned c),
                    c_is_muted := (case cu_mute u of Val n \<Rightarrow> n > 0 | Null \<Rightarrow> c_is_muted c | Undefined \<Rightarrow> c_is_muted c),
                    c_name := (case cu_name u of Val n \<Rightarrow> Some n | Null \<Rightarrow> None | Undefined \<Rightarrow> c_name c),
                    c_unread_count := (case cu_unreadCount u of Val n \<Rightarrow> n | Null \<Rightarrow> c_unread_count c | Undefined \<Rightarrow> c_unread_count c) \<rparr>))
   \<and> (co_id v \<noteq> [] \<and> Contact_findOne (committed d) (co_id v) = Some k \<and> (\<forall>r. \<not> rej_contact R r) \<longrightarrow>
      Contact_findOne (committed (ContactHandler_handleUpdate R now d [v])) (co_id v)
        = Some (k\<lparr> ct_name := (case contactNameOf v of Some m \<Rightarrow> Some m | None \<Rightarrow> ct_name k),
                    ct_avatar_url := (case co_imgUrl v of Val x \<Rightarrow> Some x | Null \<Rightarrow> None | Undefined \<Rightarrow> ct_avatar_url k),
                    ct_about := (case co_status v of Val x \<Rightarrow> Some x | Null \<Rightarrow> None | Undefined \<Rightarrow> ct_about k),
                    ct_last_seen_at := (if contactNameOf v = None \<and> co_imgUrl v = Undefined \<and> co_status v = Undefined
                                        then ct_last_seen_at k else Some now) \<rparr>))"
proof (intro conjI impI)
  assume "cu_id u \<noteq> [] \<and> Chat_findOne (committed d) (cu_id u) = Some c \<and> (\<forall>r. \<not> rej_chat R r)"
  then have i: "cu_id u \<noteq> []" and f: "Chat_findOne (committed (logAdd Info ''Processing chat updates'' None d)) (cu_id u) = Some c"
    and a: "\<forall>r. \<not> rej_chat R r" by simp_all
  from chatUpdateItem_found [OF i f a]
  show "Chat_findOne (committed (ChatHandler_handleUpdate R d [u])) (cu_id u)
        = Some (c\<lparr> c_is_archived := (case cu_archive u of Val b \<Rightarrow> b | Null \<Rightarrow> c_is_archived c | Undefined \<Rightarrow> c_is_archived c),
                    c_is_pinned := (case cu_pin u of Val n \<Rightarrow> n > 0 | Null \<Rightarrow> c_is_pinned c | Undefined \<Rightarrow> c_is_pinned c),
                    c_is_muted := (case cu_mute u of Val n \<Rightarrow> n > 0 | Null \<Rightarrow> c_is_muted c | Undefined \<Rightarrow> c_is_muted c),
                    c_name := (case cu_name u of Val n \<Rightarrow> Some n | Null \<Rightarrow> None | Undefined \<Rightarrow> c_name c),
                    c_unread_count := (case cu_unreadCount u of Val n \<Rightarrow> n | Null \<Rightarrow> c_unread_count c | Undefined \<Rightarrow> c_unread_count c) \<rparr>)"
    by (simp add: ChatHandler_handleUpdate_def foldl_chatChanges)
next
  assume "co_id v \<noteq> [] \<and> Contact_findOne (committed d) (co_id v) = Some k \<and> (\<forall>r. \<not> rej_contact R r)"
  then have i: "co_id v \<noteq> []"
    and f: "Contact_findOne (committed (logAdd Info ''Processing contact updates'' None d)) (co_id v) = Some k"
    and a: "\<forall>r. \<not> rej_contact R r" by simp_all
  show "Contact_findOne (committed (ContactHandler_handleUpdate R now d [v])) (co_id v)
        = Some (k\<lparr> ct_name := (case contactNameOf v of Some m \<Rightarrow> Some m | None \<Rightarrow> ct_name k),
                    ct_avatar_url := (case co_imgUrl v of Val x \<Rightarrow> Some x | Null \<Rightarrow> None | Undefined \<Rightarrow> ct_avatar_url k),
                    ct_about := (case co_status v of Val x \<Rightarrow> Some x | Null \<Rightarrow> None | Undefined \<Rightarrow> ct_about k),
                    ct_last_seen_at := (if contactNameOf v = None \<and> co_imgUrl v = Undefined \<and> co_status v = Undefined
                                        then ct_last_seen_at k else Some now) \<rparr>)"
  proof (cases "contactChanges v = []")
    case True
    from contactChanges_empty [OF True] contactUpdateItem_found [OF i f a, of now "co_id v"] True
    show ?thesis by (simp add: ContactHandler_handleUpdate_def)
  next
    case False
    then have cond: "(if contactNameOf v = None \<and> co_imgUrl v = Undefined \<and> co_status v = Undefined
                      then ct_last_seen_at k else Some now) = Some now"
      by (simp only: contactChanges_empty_iff if_False)
    from contactUpdateItem_found [OF i f a, of now "co_id v"] False
    show ?thesis unfolding cond by (simp add: ContactHandler_handleUpdate_def foldl_contactChanges)
  qed
qed

lemmas update_defs = ChatHandler_handleUpdate_def chatUpdateItem_def chatChanges_def
  ContactHandler_handleUpdate_def contactUpdateItem_def contactChanges_def contactNameOf_def
  fieldValue_def js_or_def or_null_def truthy_def logAdd_def Chat_findOne_def Chat_update_def
  Contact_findOne_def Contact_findOrCreate_def Contact_update_def exampleDb_def exampleChat_def
  exampleContact_def nullChatUpdate_def mixedChatUpdate_def nameUpdate_def newDb_def
  emptyTables_def acceptAll_def storedName_def Let_def

theorem c7_update_fields_applied_witness:
  "chats (committed (ChatHandler_handleUpdate acceptAll exampleDb [mixedChatUpdate]))
     = [exampleChat\<lparr>c_is_archived := False, c_is_muted := True, c_name := None\<rparr>]
   \<and> contacts (committed (ContactHandler_handleUpdate acceptAll 77 exampleDb
        [\<lparr> co_id = ''2@s.whatsapp.net'', co_name = Undefined, co_notify = Undefined, co_imgUrl = Null,
            co_status = Val ''busy'' \<rparr>]))
     = [exampleContact\<lparr>ct_avatar_url := None, ct_about := Some ''busy'', ct_last_seen_at := Some 77\<rparr>]"
proof -
  let ?v = "\<lparr> co_id = ''2@s.whatsapp.net'', co_name = Undefined, co_notify = Undefined, co_imgUrl = Null,
            co_status = Val ''busy'' \<rparr>"
  have a: "Chat_findOne (committed (ChatHandler_handleUpdate acceptAll exampleDb [mixedChatUpdate])) ''1@s.whatsapp.net''
      = Some (exampleChat\<lparr>c_is_archived := False, c_is_muted := True, c_name := None\<rparr>)"
    using c7_update_fields_applied [of mixedChatUpdate exampleDb exampleChat acceptAll ?v exampleContact 77]
    by (simp add: mixedChatUpdate_def exampleDb_def exampleChat_def Chat_findOne_def acceptAll_def newDb_def)
  have b: "Contact_findOne (committed (ContactHandler_handleUpdate acceptAll 77 exampleDb [?v])) ''2@s.whatsapp.net''
      = Some (exampleContact\<lparr>ct_avatar_url := None, ct_about := Some ''busy'', ct_last_seen_at := Some 77\<rparr>)"
    using c7_update_fields_applied [of mixedChatUpdate exampleDb exampleChat acceptAll ?v exampleContact 77]
    by (simp add: exampleDb_def exampleContact_def Contact_findOne_def acceptAll_def newDb_def
        contactNameOf_def fieldValue_def js_or_def or_null_def truthy_def)
  have la: "length (chats (committed (ChatHandler_handleUpdate acceptAll exampleDb [mixedChatUpdate]))) = 1"
    by (simp add: update_defs)
  have lb: "length (contacts (committed (ContactHandler_handleUpdate acceptAll 77 exampleDb [?v]))) = 1"
    by (simp add: update_defs)
  from a la have "chats (committed (ChatHandler_handleUpdate acceptAll exampleDb [mixedChatUpdate]))
     = [exampleChat\<lparr>c_is_archived := False, c_is_muted := True, c_name := None\<rparr>]"
    by (cases "chats (committed (ChatHandler_handleUpdate acceptAll exampleDb [mixedChatUpdate]))")
       (auto simp: Chat_findOne_def split: if_splits)
  moreover from b lb have "contacts (committed (ContactHandler_handleUpdate acceptAll 77 exampleDb [?v]))
     = [exampleContact\<lparr>ct_avatar_url := None, ct_about := Some ''busy'', ct_last_seen_at := Some 77\<rparr>]"
    by (cases "contacts (committed (ContactHandler_handleUpdate acceptAll 77 exampleDb [?v]))")
       (auto simp: Contact_findOne_def split: if_splits)
  ultimately show ?thesis by simp
qed

text \<open>
  C7 as stated fails: an update with explicit \<open>null\<close> for \<open>archive\<close>, \<open>pin\<close>, \<open>mute\<close> and
  \<open>unreadCount\<close> changes nothing in the store, and a contact update with an explicit
  \<open>null\<close> name leaves the stored name.
\<close>

theorem c7_explicit_null_counterexample:
  "committed (ChatHandler_handleUpdate acceptAll exampleDb [nullChatUpdate]) = committed exampleDb
   \<and> map c_is_archived (chats (committed (ChatHandler_handleUpdate acceptAll exampleDb [nullChatUpdate]))) = [True]
   \<and> map c_unread_count (chats (committed (ChatHandler_handleUpdate acceptAll exampleDb [nullChatUpdate]))) = [3]
   \<and> map ct_name (contacts (committed (ContactHandler_handleUpdate acceptAll 77 exampleDb
        [nameUpdate ''2@s.whatsapp.net'' Null Undefined]))) = [Some ''Alice'']"
  by (simp add: update_defs)

text \<open>
  C9, as amended. The name of a contact update is \<open>name || notify || null\<close>: the \<open>name\<close>
  when it is not empty, else the \<open>notify\<close> name when that is not empty, else nothing.
  When the store accepts the writes, the name stored for an external id after a batch
  of updates is the last such name among the updates for that id, and the name stored
  before when there is none: an update with no such name never overwrites, and each
  later one replaces.
\<close>

theorem c9_contact_name_last_writer:
  "(cid \<noteq> [] \<and> (\<forall>r. \<not> rej_contact R r) \<longrightarrow>
      storedName (committed (ContactHandler_handleUpdate R now d us)) cid
        = foldl (\<lambda>n u. if co_id u = cid
                        then (case contactNameOf u of Some m \<Rightarrow> Some m | None \<Rightarrow> n) else n)
            (storedName (committed d) cid) us)
   \<and> (truthy (fieldValue (co_name u)) \<longrightarrow> contactNameOf u = fieldValue (co_name u))
   \<and> (\<not> truthy (fieldValue (co_name u)) \<and> truthy (fieldValue (co_notify u))
        \<longrightarrow> contactNameOf u = fieldValue (co_notify u))
   \<and> (\<not> truthy (fieldValue (co_name u)) \<and> \<not> truthy (fieldValue (co_notify u))
        \<longrightarrow> contactNameOf u = None)"
proof (intro conjI impI)
  assume "cid \<noteq> [] \<and> (\<forall>r. \<not> rej_contact R r)"
  then have c: "cid \<noteq> []" and a: "\<forall>r. \<not> rej_contact R r" by simp_all
  show "storedName (committed (ContactHandler_handleUpdate R now d us)) cid
        = foldl (\<lambda>n u. if co_id u = cid
                        then (case contactNameOf u of Some m \<Rightarrow> Some m | None \<Rightarrow> n) else n)
            (storedName (committed d) cid) us"
    unfolding ContactHandler_handleUpdate_def foldl_contact_name [OF c a] by simp
qed (simp_all add: contactNameOf_def js_or_def or_null_def)

theorem c9_contact_name_last_writer_witness:
  "storedName (committed (ContactHandler_handleUpdate acceptAll 1 newDb
      [nameUpdate ''2@s.whatsapp.net'' (Val ''Alice'') Undefined])) ''2@s.whatsapp.net'' = Some ''Alice''
   \<and> storedName (committed (ContactHandler_handleUpdate acceptAll 2 (ContactHandler_handleUpdate acceptAll 1 newDb
      [nameUpdate ''2@s.whatsapp.net'' (Val ''Alice'') Undefined])
      [nameUpdate ''2@s.whatsapp.net'' Null Undefined])) ''2@s.whatsapp.net'' = Some ''Alice''
   \<and> storedName (committed (ContactHandler_handleUpdate acceptAll 3 (ContactHandler_handleUpdate acceptAll 2
      (ContactHandler_handleUpdate acceptAll 1 newDb
        [nameUpdate ''2@s.whatsapp.net'' (Val ''Alice'') Undefined])
        [nameUpdate ''2@s.whatsapp.net'' Null Undefined])
        [nameUpdate ''2@s.whatsapp.net'' (Val ''Alicia'') Undefined])) ''2@s.whatsapp.net'' = Some ''Alicia''"
proof -
  let ?c = "''2@s.whatsapp.net''"
  let ?a = "nameUpdate ?c (Val ''Alice'') Undefined"
  let ?n = "nameUpdate ?c Null Undefined"
  let ?b = "nameUpdate ?c (Val ''Alicia'') Undefined"
  have acc: "?c \<noteq> [] \<and> (\<forall>r. \<not> rej_contact acceptAll r)" by (simp add: acceptAll_def)
  have s0: "storedName (committed newDb) ?c = None"
    by (simp add: storedName_def Contact_findOne_def newDb_def emptyTables_def)
  have n: "contactNameOf ?a = Some ''Alice''" "contactNameOf ?n = None" "contactNameOf ?b = Some ''Alicia''"
    "co_id ?a = ?c" "co_id ?n = ?c" "co_id ?b = ?c"
    by (simp_all add: nameUpdate_def contactNameOf_def fieldValue_def js_or_def or_null_def truthy_def)
  let ?d1 = "ContactHandler_handleUpdate acceptAll 1 newDb [?a]"
  let ?d2 = "ContactHandler_handleUpdate acceptAll 2 ?d1 [?n]"
  have 1: "storedName (committed ?d1) ?c = Some ''Alice''"
    using c9_contact_name_last_writer [of ?c acceptAll 1 newDb "[?a]" ?a] acc s0 n by simp
  have 2: "storedName (committed ?d2) ?c = Some ''Alice''"
    using c9_contact_name_last_writer [of ?c acceptAll 2 ?d1 "[?n]" ?a] acc 1 n by simp
  have 3: "storedName (committed (ContactHandler_handleUpdate acceptAll 3 ?d2 [?b])) ?c = Some ''Alicia''"
    using c9_contact_name_last_writer [of ?c acceptAll 3 ?d2 "[?b]" ?a] acc 2 n by simp
  from 1 2 3 show ?thesis by simp
qed

text \<open>
  C9 as stated fails: an update whose \<open>name\<close> is \<open>null\<close> and whose \<open>notify\<close> is \<open>Bob\<close>
  overwrites the stored name \<open>Alice\<close>, and an update whose name is the empty string,
  which is not \<open>null\<close>, does not replace it.
\<close>

theorem c9_notify_overwrites_counterexample:
  "storedName (committed exampleDb) ''2@s.whatsapp.net'' = Some ''Alice''
   \<and> storedName (committed (ContactHandler_handleUpdate acceptAll 77 exampleDb
        [nameUpdate ''2@s.whatsapp.net'' Null (Val ''Bob'')])) ''2@s.whatsapp.net'' = Some ''Bob''
   \<and> storedName (committed (ContactHandler_handleUpdate acceptAll 77 exampleDb
        [nameUpdate ''2@s.whatsapp.net'' (Val []) Undefined])) ''2@s.whatsapp.net'' = Some ''Alice''"
  by (simp add: update_defs)

section \<open>Properties of the group handler\<close>

lemma groupAssign_keeps_ids:
  "g_chat_id (foldl groupAssign r ch) = g_chat_id r \<and> g_id (foldl groupAssign r ch) = g_id r"
proof (induction ch arbitrary: r)
  case Nil
  show ?case by simp
next
  case (Cons a ch)
  have "g_chat_id (groupAssign r a) = g_chat_id r \<and> g_id (groupAssign r a) = g_id r"
    by (cases a) simp_all
  with Cons [of "groupAssign r a"] show ?case by simp
qed

lemma groupAssign_keeps_subject:
  "\<forall>v. Set_subject v \<notin> set ch \<Longrightarrow> g_subject (foldl groupAssign r ch) = g_subject r"
proof (induction ch arbitrary: r)
  case Nil
  show ?case by simp
next
  case (Cons a ch)
  have "g_subject (groupAssign r a) = g_subject r" using Cons.prems by (cases a) auto
  with Cons.IH [of "groupAssign r a"] Cons.prems show ?case by simp
qed

lemma groupChanges_subject:
  assumes "gu_subject u = Some s"
  shows "groupChanges u \<noteq> []" and "g_subject (foldl groupAssign r (groupChanges u)) = Some s"
proof -
  obtain rest where g: "groupChanges u = Set_subject s # rest" and n: "\<forall>v. Set_subject v \<notin> set rest"
    using assms by (auto simp: groupChanges_def split: option.splits)
  show "groupChanges u \<noteq> []" using g by simp
  show "g_subject (foldl groupAssign r (groupChanges u)) = Some s"
    using groupAssign_keeps_subject [OF n, of "groupAssign r (Set_subject s)"] g by simp
qed

lemma GroupMetadata_update_findOne:
  "GroupMetadata_update R t pk ch = Inr t' \<Longrightarrow>
     GroupMetadata_findOne t' x = map_option (\<lambda>r. if g_id r = pk then foldl groupAssign r ch else r) (GroupMetadata_findOne t x)
     \<and> chats t' = chats t"
proof -
  assume u: "GroupMetadata_update R t pk ch = Inr t'"
  then have c: "groups t' = map (\<lambda>r. if g_id r = pk then foldl groupAssign r ch else r) (groups t)"
    and k: "chats t' = chats t"
    by (auto simp: GroupMetadata_update_def split: if_splits)
  have "GroupMetadata_findOne t' x = map_option (\<lambda>r. if g_id r = pk then foldl groupAssign r ch else r) (GroupMetadata_findOne t x)"
    unfolding GroupMetadata_findOne_def c
    by (rule find_map_same) (simp add: groupAssign_keeps_ids)
  with k show ?thesis by simp
qed

text \<open>The upsert of the group metadata row, when the store accepts it.\<close>

lemma group_upsert:
  assumes a: "\<forall>g. \<not> rej_group R g" and s: "gu_subject u = Some s"
  shows "\<exists>t2 g cr t3. GroupMetadata_findOrCreate R t1 pk (groupChanges u) = Inr (t2, g, cr)
            \<and> (if \<not> cr then GroupMetadata_update R t2 (g_id g) (groupChanges u) else Inr t2) = Inr t3
            \<and> chats t3 = chats t1
            \<and> (\<exists>g'. GroupMetadata_findOne t3 pk = Some g' \<and> g_subject g' = Some s)"
proof (cases "GroupMetadata_findOne t1 pk")
  case None
  let ?r = "foldl groupAssign
                     \<lparr> g_id = next_group_id t1, g_chat_id = pk, g_subject = None, g_owner = None,
                       g_description = None, g_announce = False, g_restrict_mode = False,
                       g_join_approval_mode = False, g_member_add_mode = False,
                       g_ephemeral_duration = None \<rparr> (groupChanges u)"
  let ?t2 = "t1\<lparr>groups := groups t1 @ [?r], next_group_id := Suc (next_group_id t1)\<rparr>"
  have f: "GroupMetadata_findOrCreate R t1 pk (groupChanges u) = Inr (?t2, ?r, True)"
    using None a by (simp add: GroupMetadata_findOrCreate_def Let_def)
  have "GroupMetadata_findOne ?t2 pk = Some ?r"
    using None by (simp add: GroupMetadata_findOne_def find_snoc groupAssign_keeps_ids)
  moreover have "g_subject ?r = Some s" by (rule groupChanges_subject(2) [OF s])
  ultimately show ?thesis using f by (intro exI [of _ ?t2] exI [of _ ?r] exI [of _ True]) simp
next
  case (Some g)
  have f: "GroupMetadata_findOrCreate R t1 pk (groupChanges u) = Inr (t1, g, False)"
    using Some by (simp add: GroupMetadata_findOrCreate_def)
  from a obtain t3 where up: "GroupMetadata_update R t1 (g_id g) (groupChanges u) = Inr t3"
    by (simp add: GroupMetadata_update_def)
  from GroupMetadata_update_findOne [OF up, of pk] Some
  have "GroupMetadata_findOne t3 pk = Some (foldl groupAssign g (groupChanges u))" and "chats t3 = chats t1"
    by simp_all
  with f up groupChanges_subject(2) [OF s, of g] show ?thesis
    by (intro exI [of _ t1] exI [of _ g] exI [of _ False] exI [of _ t3]) simp
qed

lemma groupUpdateItem_subject:
  assumes i: "gu_id u \<noteq> []" and f: "Chat_findOne (committed d) (gu_id u) = Some c"
    and s: "gu_subject u = Some s"
    and a: "\<forall>r. \<not> rej_chat R r" and b: "\<forall>g. \<not> rej_group R g"
  shows "Chat_findOne (committed (groupUpdateItem R d u)) (gu_id u) = Some (c\<lparr>c_name := Some s\<rparr>)"
    and "\<exists>g. GroupMetadata_findOne (committed (groupUpdateItem R d u)) (c_id c) = Some g \<and> g_subject g = Some s"
proof -
  from Chat_update_accepted [OF a] obtain t1 where
    u: "Chat_update R (committed d) (c_id c) [Set_name (Some s)] = Inr t1" by blast
  from Chat_update_findOne [OF u, of "gu_id u"] f
  have c1: "Chat_findOne t1 (gu_id u) = Some (c\<lparr>c_name := Some s\<rparr>)" by simp
  from group_upsert [OF b s, of t1 "c_id c"] obtain t2 g cr t3 g' where
    fc: "GroupMetadata_findOrCreate R t1 (c_id c) (groupChanges u) = Inr (t2, g, cr)"
    and up: "(if \<not> cr then GroupMetadata_update R t2 (g_id g) (groupChanges u) else Inr t2) = Inr t3"
    and k: "chats t3 = chats t1"
    and g: "GroupMetadata_findOne t3 (c_id c) = Some g'" "g_subject g' = Some s"
    by blast
  have r: "groupUpdateItem R d u = logAdd Info ''Group metadata updated'' (Some (gu_id u)) (d\<lparr>committed := t3\<rparr>)"
    using i f s u fc up groupChanges_subject(1) [OF s]
    by (simp add: groupUpdateItem_def Let_def)
  show "Chat_findOne (committed (groupUpdateItem R d u)) (gu_id u) = Some (c\<lparr>c_name := Some s\<rparr>)"
    using c1 k by (simp add: r Chat_findOne_def)
  show "\<exists>g. GroupMetadata_findOne (committed (groupUpdateItem R d u)) (c_id c) = Some g \<and> g_subject g = Some s"
    using g by (simp add: r)
qed

text \<open>
  C10. A group update that carries a \<open>subject\<close>, for a chat that exists, writes the
  subject into the chat's name whatever name the chat had before, and upserts it into
  the group metadata row of that chat, when the store accepts the writes. Apart from
  its name the chat row is unchanged.
\<close>

theorem c10_group_subject_overwrites_chat_name:
  "gu_id u \<noteq> [] \<and> Chat_findOne (committed d) (gu_id u) = Some c \<and> gu_subject u = Some s
     \<and> (\<forall>r. \<not> rej_chat R r) \<and> (\<forall>g. \<not> rej_group R g) \<longrightarrow>
   Chat_findOne (committed (handleGroupUpdate R d [u])) (gu_id u) = Some (c\<lparr>c_name := Some s\<rparr>)
   \<and> (\<exists>g. GroupMetadata_findOne (committed (handleGroupUpdate R d [u])) (c_id c) = Some g
           \<and> g_subject g = Some s)"
proof (intro impI)
  assume h: "gu_id u \<noteq> [] \<and> Chat_findOne (committed d) (gu_id u) = Some c \<and> gu_subject u = Some s
     \<and> (\<forall>r. \<not> rej_chat R r) \<and> (\<forall>g. \<not> rej_group R g)"
  let ?d0 = "logAdd Info ''Processing group updates'' None d"
  from h have i: "gu_id u \<noteq> []" and f: "Chat_findOne (committed ?d0) (gu_id u) = Some c"
    and s: "gu_subject u = Some s" and a: "\<forall>r. \<not> rej_chat R r" and b: "\<forall>g. \<not> rej_group R g"
    by simp_all
  from groupUpdateItem_subject [OF i f s a b]
  show "Chat_findOne (committed (handleGroupUpdate R d [u])) (gu_id u) = Some (c\<lparr>c_name := Some s\<rparr>)
   \<and> (\<exists>g. GroupMetadata_findOne (committed (handleGroupUpdate R d [u])) (c_id c) = Some g
           \<and> g_subject g = Some s)"
    by (simp add: handleGroupUpdate_def)
qed

theorem c10_group_subject_overwrites_chat_name_witness:
  "c_name exampleChat = Some ''Ann''
   \<and> map c_name (chats (committed (handleGroupUpdate acceptAll exampleDb [subjectUpdate ''1@s.whatsapp.net'' ''Team'']))) = [Some ''Team'']
   \<and> map g_subject (groups (committed (handleGroupUpdate acceptAll exampleDb [subjectUpdate ''1@s.whatsapp.net'' ''Team'']))) = [Some ''Team'']
   \<and> Chat_findOne (committed (handleGroupUpdate acceptAll exampleDb [subjectUpdate ''1@s.whatsapp.net'' ''Team''])) ''1@s.whatsapp.net''
       = Some (exampleChat\<lparr>c_name := Some ''Team''\<rparr>)"
proof -
  let ?u = "subjectUpdate ''1@s.whatsapp.net'' ''Team''"
  have e: "map c_name (chats (committed (handleGroupUpdate acceptAll exampleDb [?u]))) = [Some ''Team'']"
     "map g_subject (groups (committed (handleGroupUpdate acceptAll exampleDb [?u]))) = [Some ''Team'']"
    by (simp_all add: handleGroupUpdate_def groupUpdateItem_def groupChanges_def subjectUpdate_def
        logAdd_def Chat_findOne_def Chat_update_def GroupMetadata_findOrCreate_def
        GroupMetadata_findOne_def GroupMetadata_update_def exampleDb_def exampleChat_def
        newDb_def emptyTables_def acceptAll_def Let_def)
  have h: "gu_id ?u \<noteq> [] \<and> Chat_findOne (committed exampleDb) (gu_id ?u) = Some exampleChat
      \<and> gu_subject ?u = Some ''Team'' \<and> (\<forall>r. \<not> rej_chat acceptAll r) \<and> (\<forall>g. \<not> rej_group acceptAll g)"
    by (simp add: subjectUpdate_def exampleDb_def exampleChat_def Chat_findOne_def acceptAll_def)
  have n: "c_name exampleChat = Some ''Ann''" by (simp add: exampleChat_def)
  from c10_group_subject_overwrites_chat_name [of ?u exampleDb exampleChat "''Team''" acceptAll] h
  have "Chat_findOne (committed (handleGroupUpdate acceptAll exampleDb [?u])) (gu_id ?u)
       = Some (exampleChat\<lparr>c_name := Some ''Team''\<rparr>)" by blast
  with e n show ?thesis by (simp add: subjectUpdate_def)
qed

section \<open>Properties of the history handler\<close>






























end
